theory Spec2Isabelle
  imports Complex_Main "HOL-Library.AList" "HOL-Library.Multiset" "HOL-Library.Sublist"
    "HOL-Library.Log_Nat"
begin

section \<open>Data model of \<open>src/app.py\<close>\<close>

text \<open>
  The module keeps six globals: the dictionaries \<open>transactions\<close>, \<open>product_totals\<close>,
  \<open>customer_totals\<close>, \<open>product_index\<close>, \<open>customer_index\<close> and the counter
  \<open>next_id\<close>. A Python dictionary iterates in insertion order, so each one is an
  association list: \<open>d[k] = v\<close> is \<open>AList.update\<close> (an existing key keeps its place, a new
  key goes to the end), \<open>d.pop(k, None)\<close> is \<open>AList.delete\<close>, \<open>d.get(k)\<close> is
  \<open>map_of\<close>. A Python \<open>set[int]\<close> is an \<open>int set\<close>; the order in which a set is iterated
  is not fixed by the language, so the one function that iterates a set takes that order
  as the argument \<open>set_iter\<close>.

  Python's \<open>int\<close> is \<open>int\<close>. A finite \<open>float\<close> is the rational number that it stands
  for, and every arithmetic operation on floats rounds its exact result to the nearest
  float (\<open>fl\<close> below). The embedding has no infinity and no NaN: a price that converts
  to one of them is not a payload of the model, and the statements about amounts are made
  for stores whose amounts are below the largest float. A timestamp is an instant on the
  UTC time line, counted in microseconds.

  A leading underscore of a source name is dropped (\<open>_index_transaction\<close> is
  \<open>index_transaction\<close>); the key \<open>id\<close> of a transaction is the field \<open>id_tx\<close>, and the local
  variable \<open>total\<close> is \<open>tot\<close>.
\<close>

type_synonym timestamp = int

record tx =
  id_tx :: int
  product_id :: string
  product_name :: "string option"
  customer_id :: string
  customer_name :: "string option"
  quantity :: int
  price :: rat
  timestamp :: timestamp

record state =
  transactions :: "(int \<times> tx) list"
  product_totals :: "(string \<times> rat) list"
  customer_totals :: "(string \<times> rat) list"
  product_index :: "(string \<times> int set) list"
  customer_index :: "(string \<times> int set) list"
  next_id :: int

definition init_state :: state where
  "init_state = \<lparr>transactions = [], product_totals = [], customer_totals = [],
     product_index = [], customer_index = [], next_id = 1\<rparr>"

text \<open>
  The exceptions of the program. A handler catches \<open>ValueError\<close> (and \<open>TypeError\<close> around
  \<open>int\<close> and \<open>float\<close>); any other exception leaves the handler, the request is answered
  with status 500, and the globals stay as they are at that moment.
\<close>

datatype py_error = KeyError | OverflowError | TypeError | ValueError string

subsection \<open>Requests as the handlers see them\<close>

text \<open>
  The HTTP layer and the builtin conversions are outside the repository. A request field
  carries the outcome of the conversion that the handler applies to it:
  \<^item> a timestamp: \<open>TsEmpty\<close> when the value is falsy (\<open>None\<close>, the empty string, \<open>0\<close>, ...),
    \<open>TsNotStr\<close> when it is truthy and not a string, so that \<open>datetime.fromisoformat\<close>
    raises \<open>TypeError\<close>, \<open>TsBad\<close> when it is a string and \<open>datetime.fromisoformat\<close> raises
    \<open>ValueError\<close>, \<open>TsOk t\<close> when it parses to the instant \<open>t\<close> (made UTC by the last three
    lines of \<open>_parse_timestamp\<close>);
  \<^item> \<open>product_id\<close> and the other text fields of a payload: \<open>str(value).strip()\<close>;
  \<^item> \<open>quantity\<close> and \<open>price\<close> of a payload: \<open>Converted v\<close> when \<open>int(value)\<close> or
    \<open>float(value)\<close> returns \<open>v\<close>, \<open>Refused\<close> when it raises \<open>TypeError\<close> or \<open>ValueError\<close>,
    \<open>TooLarge\<close> when it raises \<open>OverflowError\<close> (\<open>float(10**309)\<close>, \<open>int(float('inf'))\<close>);
  \<^item> \<open>min_total\<close>, \<open>max_total\<close> of a query: \<open>Some None\<close> when \<open>float(value)\<close> raises
    \<open>ValueError\<close> (the only exception of \<open>float\<close> on a string), \<open>Some (Some v)\<close> otherwise;
  \<^item> \<open>limit\<close>, \<open>offset\<close>: the result of \<open>request.args.get(..., type=int)\<close>, \<open>None\<close> when the
    parameter is missing or is not an integer.
  The outer \<open>option\<close> of a payload field says whether the key is in the payload.
\<close>

datatype ts_in = TsEmpty | TsNotStr | TsBad | TsOk timestamp

datatype 'a converted = Converted 'a | Refused | TooLarge

record payload =
  product_id_in :: "string option"
  product_name_in :: "string option"
  customer_id_in :: "string option"
  customer_name_in :: "string option"
  quantity_in :: "int converted option"
  price_in :: "rat converted option"
  timestamp_in :: "ts_in option"

record normalized =
  n_product_id :: "string option"
  n_product_name :: "string option option"
  n_customer_id :: "string option"
  n_customer_name :: "string option option"
  n_quantity :: "int option"
  n_price :: "rat option"
  n_timestamp :: "timestamp option"

record list_args =
  a_product_id :: "string option"
  a_customer_id :: "string option"
  a_start_date :: ts_in
  a_end_date :: ts_in
  a_min_total :: "rat option option"
  a_max_total :: "rat option option"
  a_limit :: "int option"
  a_offset :: "int option"

type_synonym serialized = "tx \<times> rat"

datatype response =
    BadRequest "string list"
  | NotFound
  | ServerError py_error
  | Created serialized
  | Ok serialized
  | Deleted serialized
  | Listing nat "serialized list"
  | Customers "(string \<times> rat) list" nat

section \<open>Helpers of the Python runtime\<close>

definition dict_get :: "('k \<times> 'v) list \<Rightarrow> 'k \<Rightarrow> 'v \<Rightarrow> 'v" where
  "dict_get d k dflt = (case map_of d k of None \<Rightarrow> dflt | Some v \<Rightarrow> v)"

subsection \<open>Floating point\<close>

text \<open>\<open>flog2 x\<close> is the integer part of the binary logarithm of a positive \<open>x\<close>.\<close>

definition flog2 :: "rat \<Rightarrow> int" where
  "flog2 x = (if 1 \<le> x then bitlen \<lfloor>x\<rfloor> - 1 else - bitlen (\<lceil>1 / x\<rceil> - 1))"

definition round_half_even :: "rat \<Rightarrow> int" where
  "round_half_even y =
     (let f = \<lfloor>y\<rfloor>; d = y - of_int f
      in if d < 1 / 2 then f else if 1 / 2 < d then f + 1 else if even f then f else f + 1)"

text \<open>
  Rounding to the nearest IEEE 754 double, a tie going to the even significand: 53
  significant bits above the exponent \<open>- 1022\<close>, multiples of \<open>2 ^ - 1074\<close> below it. Where
  Python leaves the finite floats (a result of \<open>2 ^ 1024 - 2 ^ 970\<close> or more becomes
  \<open>inf\<close>) the function keeps the rounded finite value.
\<close>

definition fl :: "rat \<Rightarrow> rat" where
  "fl x =
     (if x = 0 then 0
      else (let e = max (flog2 \<bar>x\<bar>) (- 1022); q = 2 powi (e - 52)
            in of_int (round_half_even (x / q)) * q))"

text \<open>
  \<open>float(n)\<close> for an \<open>int\<close>: the nearest float, and \<open>OverflowError\<close> when that would be
  beyond the largest one.
\<close>

definition float_of_int :: "int \<Rightarrow> py_error + rat" where
  "float_of_int n =
     (if 2 ^ 1024 - 2 ^ 970 \<le> \<bar>n\<bar> then Inl OverflowError else Inr (fl (of_int n)))"

text \<open>\<open>round(x, 2)\<close>: to the nearest hundredth, a tie going to the even neighbour.\<close>

definition round2 :: "rat \<Rightarrow> rat" where
  "round2 x =
     (let y = x * 100; f = \<lfloor>y\<rfloor>; d = y - of_int f
      in of_int (if d < 1 / 2 then f else if 1 / 2 < d then f + 1
                 else if even f then f else f + 1) / 100)"

text \<open>
  \<open>heapq.nlargest(n, iterable, key)\<close> is documented as equivalent to
  \<open>sorted(iterable, key=key, reverse=True)[:n]\<close>; \<open>sorted\<close> is stable, also with
  \<open>reverse=True\<close>, and so is \<open>sort_key\<close> on the negated key.
\<close>

definition nlargest :: "nat \<Rightarrow> ('a \<Rightarrow> rat) \<Rightarrow> 'a list \<Rightarrow> 'a list" where
  "nlargest n key xs = take n (sort_key (\<lambda>x. - key x) xs)"

section \<open>The functions of \<open>src/app.py\<close>\<close>

text \<open>
  \<open>_parse_timestamp\<close> for a truthy value: \<open>datetime.fromisoformat\<close>, its \<open>ValueError\<close>
  raised again with the message of the program, its \<open>TypeError\<close> not caught.
\<close>

definition parse_truthy :: "ts_in \<Rightarrow> py_error + timestamp" where
  "parse_truthy v =
     (case v of
        TsOk t \<Rightarrow> Inr t
      | TsNotStr \<Rightarrow> Inl TypeError
      | _ \<Rightarrow> Inl (ValueError ''timestamp must be ISO 8601''))"

definition parse_timestamp :: "timestamp \<Rightarrow> ts_in \<Rightarrow> py_error + timestamp" where
  "parse_timestamp now v = (if v = TsEmpty then Inr now else parse_truthy v)"

text \<open>\<open>float(tx["quantity"]) * float(tx["price"])\<close>; the price is a float already.\<close>

definition transaction_total :: "tx \<Rightarrow> py_error + rat" where
  "transaction_total t =
     (case float_of_int (quantity t) of
        Inl e \<Rightarrow> Inl e
      | Inr q \<Rightarrow> Inr (fl (q * price t)))"

text \<open>
  The JSON view of a record: its fields and the rounded total (the rendering of the
  timestamp as text is left to the JSON layer).
\<close>

definition serialize_transaction :: "tx \<Rightarrow> py_error + serialized" where
  "serialize_transaction t =
     (case transaction_total t of
        Inl e \<Rightarrow> Inl e
      | Inr tot \<Rightarrow> Inr (t, round2 tot))"

subsection \<open>\<open>_validate_payload\<close>\<close>

definition require_field :: "bool \<Rightarrow> string \<Rightarrow> string list" where
  "require_field partial field = (if \<not> partial then [field @ '' is required''] else [])"

definition validate_id :: "bool \<Rightarrow> string \<Rightarrow> string option \<Rightarrow> string option \<times> string list" where
  "validate_id partial field v =
     (case v of
        None \<Rightarrow> (None, require_field partial field)
      | Some val \<Rightarrow>
          if val = [] then (None, [field @ '' cannot be empty'']) else (Some val, []))"

definition validate_name :: "string option \<Rightarrow> string option option" where
  "validate_name v =
     (case v of
        None \<Rightarrow> None
      | Some val \<Rightarrow> Some (if val = [] then None else Some val))"

definition validate_quantity ::
  "bool \<Rightarrow> int converted option \<Rightarrow> py_error + (int option \<times> string list)" where
  "validate_quantity partial v =
     (case v of
        None \<Rightarrow> Inr (None, require_field partial ''quantity'')
      | Some TooLarge \<Rightarrow> Inl OverflowError
      | Some Refused \<Rightarrow> Inr (None, [''quantity must be a positive integer''])
      | Some (Converted q) \<Rightarrow>
          (if q \<le> 0 then Inr (None, [''quantity must be a positive integer''])
           else Inr (Some q, [])))"

definition validate_price ::
  "bool \<Rightarrow> rat converted option \<Rightarrow> py_error + (rat option \<times> string list)" where
  "validate_price partial v =
     (case v of
        None \<Rightarrow> Inr (None, require_field partial ''price'')
      | Some TooLarge \<Rightarrow> Inl OverflowError
      | Some Refused \<Rightarrow> Inr (None, [''price must be a non-negative number''])
      | Some (Converted p) \<Rightarrow>
          (if p < 0 then Inr (None, [''price must be a non-negative number''])
           else Inr (Some p, [])))"

definition validate_timestamp ::
  "timestamp \<Rightarrow> ts_in option \<Rightarrow> py_error + (timestamp option \<times> string list)" where
  "validate_timestamp now v =
     (case v of
        None \<Rightarrow> Inr (None, [])
      | Some raw \<Rightarrow>
          (case parse_timestamp now raw of
             Inr t \<Rightarrow> Inr (Some t, [])
           | Inl (ValueError msg) \<Rightarrow> Inr (None, [msg])
           | Inl e \<Rightarrow> Inl e))"

text \<open>\<open>Inl e\<close>: the exception \<open>e\<close> leaves \<open>_validate_payload\<close>.\<close>

definition validate_payload ::
  "timestamp \<Rightarrow> payload \<Rightarrow> bool \<Rightarrow> py_error + (normalized \<times> string list)" where
  "validate_payload now data partial =
     (case validate_id partial ''product_id'' (product_id_in data) of
        (pid, e1) \<Rightarrow>
     (case validate_id partial ''customer_id'' (customer_id_in data) of
        (cid, e2) \<Rightarrow>
     (case validate_quantity partial (quantity_in data) of
        Inl e \<Rightarrow> Inl e
      | Inr (qty, e3) \<Rightarrow>
     (case validate_price partial (price_in data) of
        Inl e \<Rightarrow> Inl e
      | Inr (prc, e4) \<Rightarrow>
     (case validate_timestamp now (timestamp_in data) of
        Inl e \<Rightarrow> Inl e
      | Inr (ts, e5) \<Rightarrow>
          Inr (\<lparr>n_product_id = pid, n_product_name = validate_name (product_name_in data),
                n_customer_id = cid, n_customer_name = validate_name (customer_name_in data),
                n_quantity = qty, n_price = prc, n_timestamp = ts\<rparr>,
               e1 @ e2 @ e3 @ e4 @ e5))))))"

subsection \<open>\<open>_index_transaction\<close> and \<open>_unindex_transaction\<close>\<close>

text \<open>\<open>index.setdefault(key, set()).add(tx_id)\<close>\<close>

definition setdefault_add :: "'k \<Rightarrow> int \<Rightarrow> ('k \<times> int set) list \<Rightarrow> ('k \<times> int set) list" where
  "setdefault_add k i d = AList.update k (insert i (dict_get d k {})) d"

text \<open>\<open>totals[key] = totals.get(key, 0.0) + total\<close>\<close>

definition add_total :: "'k \<Rightarrow> rat \<Rightarrow> ('k \<times> rat) list \<Rightarrow> ('k \<times> rat) list" where
  "add_total k tot d = AList.update k (fl (dict_get d k 0 + tot)) d"

text \<open>
  \<open>if key in index: index[key].discard(tx_id); if not index[key]: index.pop(key, None)\<close>
\<close>

definition discard_id :: "'k \<Rightarrow> int \<Rightarrow> ('k \<times> int set) list \<Rightarrow> ('k \<times> int set) list" where
  "discard_id k i d =
     (case map_of d k of
        None \<Rightarrow> d
      | Some ids \<Rightarrow>
          (let ids' = ids - {i}
           in if ids' = {} then AList.delete k d else AList.update k ids' d))"

text \<open>
  \<open>totals[key] = totals.get(key, 0.0) - total; if totals[key] <= 0: totals.pop(key, None)\<close>
\<close>

definition sub_total :: "'k \<Rightarrow> rat \<Rightarrow> ('k \<times> rat) list \<Rightarrow> ('k \<times> rat) list" where
  "sub_total k tot d =
     (let v = fl (dict_get d k 0 - tot); d' = AList.update k v d
      in if v \<le> 0 then AList.delete k d' else d')"

text \<open>
  Both functions compute the total first: an \<open>OverflowError\<close> of \<open>float(tx["quantity"])\<close>
  leaves them before they touch an index or a ledger.
\<close>

definition index_transaction :: "int \<Rightarrow> tx \<Rightarrow> state \<Rightarrow> py_error + state" where
  "index_transaction tx_id t s =
     (case transaction_total t of
        Inl e \<Rightarrow> Inl e
      | Inr tot \<Rightarrow>
          Inr (s\<lparr>product_index := setdefault_add (product_id t) tx_id (product_index s),
                 customer_index := setdefault_add (customer_id t) tx_id (customer_index s),
                 product_totals := add_total (product_id t) tot (product_totals s),
                 customer_totals := add_total (customer_id t) tot (customer_totals s)\<rparr>))"

definition unindex_transaction :: "int \<Rightarrow> tx \<Rightarrow> state \<Rightarrow> py_error + state" where
  "unindex_transaction tx_id t s =
     (case transaction_total t of
        Inl e \<Rightarrow> Inl e
      | Inr tot \<Rightarrow>
          Inr (s\<lparr>product_index := discard_id (product_id t) tx_id (product_index s),
                 customer_index := discard_id (customer_id t) tx_id (customer_index s),
                 product_totals := sub_total (product_id t) tot (product_totals s),
                 customer_totals := sub_total (customer_id t) tot (customer_totals s)\<rparr>))"

subsection \<open>\<open>_apply_filters\<close>\<close>

text \<open>\<open>transactions[tx_id]\<close>: a missing id raises \<open>KeyError\<close>.\<close>

definition fetch :: "(int \<times> tx) list \<Rightarrow> int \<Rightarrow> py_error + tx" where
  "fetch d i = (case map_of d i of None \<Rightarrow> Inl KeyError | Some t \<Rightarrow> Inr t)"

text \<open>
  The loop over \<open>candidate_iter\<close>. The candidates come from a generator, so a \<open>KeyError\<close>
  of the lookup is raised when the loop reaches that candidate: an element of the list is
  the record or the exception of its lookup. The total is computed after the two tests
  on the timestamp, and its \<open>OverflowError\<close> ends the loop.
\<close>

fun filter_loop ::
  "timestamp option \<Rightarrow> timestamp option \<Rightarrow> rat option \<Rightarrow> rat option \<Rightarrow>
   (py_error + tx) list \<Rightarrow> py_error + tx list" where
  "filter_loop start_date end_date min_total max_total [] = Inr []"
| "filter_loop start_date end_date min_total max_total (Inl e # rest) = Inl e"
| "filter_loop start_date end_date min_total max_total (Inr t # rest) =
     (if (case start_date of None \<Rightarrow> False | Some sd \<Rightarrow> timestamp t < sd)
      then filter_loop start_date end_date min_total max_total rest
      else if (case end_date of None \<Rightarrow> False | Some ed \<Rightarrow> timestamp t > ed)
      then filter_loop start_date end_date min_total max_total rest
      else
        (case transaction_total t of
           Inl e \<Rightarrow> Inl e
         | Inr tot \<Rightarrow>
             if (case min_total of None \<Rightarrow> False | Some mn \<Rightarrow> tot < mn)
             then filter_loop start_date end_date min_total max_total rest
             else if (case max_total of None \<Rightarrow> False | Some mx \<Rightarrow> tot > mx)
             then filter_loop start_date end_date min_total max_total rest
             else
               (case filter_loop start_date end_date min_total max_total rest of
                  Inl e \<Rightarrow> Inl e
                | Inr results \<Rightarrow> Inr (t # results))))"

text \<open>\<open>if product_id:\<close> holds for a string that is present and not empty.\<close>

definition truthy :: "string option \<Rightarrow> bool" where
  "truthy v \<longleftrightarrow> (case v of None \<Rightarrow> False | Some x \<Rightarrow> x \<noteq> [])"

definition candidates :: "string option \<Rightarrow> string option \<Rightarrow> state \<Rightarrow> int set option" where
  "candidates pid cid s =
     (let candidate_ids =
            (if truthy pid then Some (dict_get (product_index s) (the pid) {}) else None)
      in if truthy cid then
           (let customer_set = dict_get (customer_index s) (the cid) {}
            in case candidate_ids of
                 None \<Rightarrow> Some customer_set
               | Some c \<Rightarrow> Some (c \<inter> customer_set))
         else candidate_ids)"

definition apply_filters ::
  "(int set \<Rightarrow> int list) \<Rightarrow> string option \<Rightarrow> string option \<Rightarrow> timestamp option \<Rightarrow>
   timestamp option \<Rightarrow> rat option \<Rightarrow> rat option \<Rightarrow> state \<Rightarrow> py_error + tx list" where
  "apply_filters set_iter pid cid start_date end_date min_total max_total s =
     filter_loop start_date end_date min_total max_total
       (case candidates pid cid s of
          None \<Rightarrow> map Inr (map snd (transactions s))
        | Some candidate_ids \<Rightarrow> map (fetch (transactions s)) (set_iter candidate_ids))"

subsection \<open>The handlers\<close>

text \<open>
  \<open>create_transaction\<close> takes the id and stores the record before it calls
  \<open>_index_transaction\<close>: an exception of that call leaves the counter advanced and the
  record stored.
\<close>

definition create_transaction :: "timestamp \<Rightarrow> payload \<Rightarrow> state \<Rightarrow> response \<times> state" where
  "create_transaction now data s =
     (case validate_payload now data False of
        Inl e \<Rightarrow> (ServerError e, s)
      | Inr (normalized, errors) \<Rightarrow>
          if errors \<noteq> [] then (BadRequest errors, s)
          else
            (case (n_product_id normalized, n_customer_id normalized,
                   n_quantity normalized, n_price normalized) of
               (Some pid, Some cid, Some qty, Some prc) \<Rightarrow>
                 (let tx_id = next_id s;
                      s1 = s\<lparr>next_id := next_id s + 1\<rparr>;
                      t = \<lparr>id_tx = tx_id, product_id = pid,
                           product_name = (case n_product_name normalized of
                                             None \<Rightarrow> None | Some v \<Rightarrow> v),
                           customer_id = cid,
                           customer_name = (case n_customer_name normalized of
                                              None \<Rightarrow> None | Some v \<Rightarrow> v),
                           quantity = qty, price = prc,
                           timestamp = (case n_timestamp normalized of
                                          None \<Rightarrow> now | Some v \<Rightarrow> v)\<rparr>;
                      s2 = s1\<lparr>transactions := AList.update tx_id t (transactions s1)\<rparr>
                  in case index_transaction tx_id t s2 of
                       Inl e \<Rightarrow> (ServerError e, s2)
                     | Inr s3 \<Rightarrow>
                         (case serialize_transaction t of
                            Inl e \<Rightarrow> (ServerError e, s3)
                          | Inr v \<Rightarrow> (Created v, s3)))
             | _ \<Rightarrow> (ServerError KeyError, s)))"

definition slice :: "int option \<Rightarrow> int option \<Rightarrow> 'a list \<Rightarrow> 'a list" where
  "slice limit_arg offset_arg results =
     (let offset0 = (case offset_arg of None \<Rightarrow> 0 | Some v \<Rightarrow> v);
          offset = (if offset0 < 0 then 0 else offset0);
          limit = (case limit_arg of None \<Rightarrow> None
                   | Some l \<Rightarrow> if l < 0 then None else Some l)
      in case limit of
           None \<Rightarrow> drop (nat offset) results
         | Some l \<Rightarrow> take (nat l) (drop (nat offset) results))"

text \<open>\<open>_parse_timestamp(value) if value else None\<close>\<close>

definition parse_filter :: "ts_in \<Rightarrow> py_error + timestamp option" where
  "parse_filter v =
     (if v = TsEmpty then Inr None
      else case parse_truthy v of Inl e \<Rightarrow> Inl e | Inr t \<Rightarrow> Inr (Some t))"

text \<open>\<open>[_serialize_transaction(tx) for tx in sliced]\<close>\<close>

fun serialize_all :: "tx list \<Rightarrow> py_error + serialized list" where
  "serialize_all [] = Inr []"
| "serialize_all (t # ts) =
     (case serialize_transaction t of
        Inl e \<Rightarrow> Inl e
      | Inr v \<Rightarrow> (case serialize_all ts of Inl e \<Rightarrow> Inl e | Inr vs \<Rightarrow> Inr (v # vs)))"

definition list_transactions ::
  "(int set \<Rightarrow> int list) \<Rightarrow> list_args \<Rightarrow> state \<Rightarrow> response \<times> state" where
  "list_transactions set_iter args s =
     (case parse_filter (a_start_date args) of
        Inl (ValueError msg) \<Rightarrow> (BadRequest [msg], s)
      | Inl e \<Rightarrow> (ServerError e, s)
      | Inr start_dt \<Rightarrow>
     (case parse_filter (a_end_date args) of
        Inl (ValueError msg) \<Rightarrow> (BadRequest [msg], s)
      | Inl e \<Rightarrow> (ServerError e, s)
      | Inr end_dt \<Rightarrow>
          if a_min_total args = Some None \<or> a_max_total args = Some None
          then (BadRequest [''min_total/max_total must be numbers''], s)
          else
            (let min_total_val = (case a_min_total args of Some v \<Rightarrow> v | None \<Rightarrow> None);
                 max_total_val = (case a_max_total args of Some v \<Rightarrow> v | None \<Rightarrow> None)
             in case apply_filters set_iter (a_product_id args) (a_customer_id args)
                       start_dt end_dt min_total_val max_total_val s of
                  Inl e \<Rightarrow> (ServerError e, s)
                | Inr results \<Rightarrow>
                    (case serialize_all (slice (a_limit args) (a_offset args) results) of
                       Inl e \<Rightarrow> (ServerError e, s)
                     | Inr page \<Rightarrow> (Listing (length results) page, s)))))"

text \<open>
  \<open>update_transaction\<close> changes the stored record in place between \<open>_unindex_transaction\<close>
  and \<open>_index_transaction\<close>: an exception of the second call leaves the record changed and
  in no index.
\<close>

definition update_transaction :: "timestamp \<Rightarrow> int \<Rightarrow> payload \<Rightarrow> state \<Rightarrow> response \<times> state" where
  "update_transaction now tx_id data s =
     (case map_of (transactions s) tx_id of
        None \<Rightarrow> (NotFound, s)
      | Some t \<Rightarrow>
          (case validate_payload now data True of
             Inl e \<Rightarrow> (ServerError e, s)
           | Inr (normalized, errors) \<Rightarrow>
               if errors \<noteq> [] then (BadRequest errors, s)
               else
                 (case unindex_transaction tx_id t s of
                    Inl e \<Rightarrow> (ServerError e, s)
                  | Inr s1 \<Rightarrow>
                      (let t' = t\<lparr>product_id := (case n_product_id normalized of
                                                   None \<Rightarrow> product_id t | Some v \<Rightarrow> v),
                                  product_name := (case n_product_name normalized of
                                                     None \<Rightarrow> product_name t | Some v \<Rightarrow> v),
                                  customer_id := (case n_customer_id normalized of
                                                    None \<Rightarrow> customer_id t | Some v \<Rightarrow> v),
                                  customer_name := (case n_customer_name normalized of
                                                      None \<Rightarrow> customer_name t | Some v \<Rightarrow> v),
                                  quantity := (case n_quantity normalized of
                                                 None \<Rightarrow> quantity t | Some v \<Rightarrow> v),
                                  price := (case n_price normalized of
                                              None \<Rightarrow> price t | Some v \<Rightarrow> v),
                                  timestamp := (case n_timestamp normalized of
                                                  None \<Rightarrow> timestamp t | Some v \<Rightarrow> v)\<rparr>;
                           s2 = s1\<lparr>transactions := AList.update tx_id t' (transactions s1)\<rparr>
                       in case index_transaction tx_id t' s2 of
                            Inl e \<Rightarrow> (ServerError e, s2)
                          | Inr s3 \<Rightarrow>
                              (case serialize_transaction t' of
                                 Inl e \<Rightarrow> (ServerError e, s3)
                               | Inr v \<Rightarrow> (Ok v, s3))))))"

text \<open>
  \<open>delete_transaction\<close> pops the record before it calls \<open>_unindex_transaction\<close>.
\<close>

definition delete_transaction :: "int \<Rightarrow> state \<Rightarrow> response \<times> state" where
  "delete_transaction tx_id s =
     (case map_of (transactions s) tx_id of
        None \<Rightarrow> (NotFound, s)
      | Some t \<Rightarrow>
          (let s1 = s\<lparr>transactions := AList.delete tx_id (transactions s)\<rparr>
           in case unindex_transaction tx_id t s1 of
                Inl e \<Rightarrow> (ServerError e, s1)
              | Inr s2 \<Rightarrow>
                  (case serialize_transaction t of
                     Inl e \<Rightarrow> (ServerError e, s2)
                   | Inr v \<Rightarrow> (Deleted v, s2))))"

definition top_customers :: "int option \<Rightarrow> state \<Rightarrow> response \<times> state" where
  "top_customers limit_arg s =
     (let limit = (case limit_arg of None \<Rightarrow> 10 | Some l \<Rightarrow> l)
      in if limit \<le> 0 then (BadRequest [''limit must be positive''], s)
         else
           (let top = nlargest (nat limit) snd (customer_totals s);
                results = map (\<lambda>(c, tot). (c, round2 tot)) top
            in (Customers results (length results), s)))"

subsection \<open>Runs of the service\<close>

datatype request =
    Create timestamp payload
  | ListTx "int set \<Rightarrow> int list" list_args
  | Update timestamp int payload
  | Delete int
  | TopCustomers "int option"

fun handle :: "request \<Rightarrow> state \<Rightarrow> response \<times> state" where
  "handle (Create now data) s = create_transaction now data s"
| "handle (ListTx set_iter args) s = list_transactions set_iter args s"
| "handle (Update now tx_id data) s = update_transaction now tx_id data s"
| "handle (Delete tx_id) s = delete_transaction tx_id s"
| "handle (TopCustomers limit_arg) s = top_customers limit_arg s"

fun run :: "request list \<Rightarrow> state \<Rightarrow> response list \<times> state" where
  "run [] s = ([], s)"
| "run (r # rs) s =
     (case handle r s of
        (resp, s') \<Rightarrow> (case run rs s' of (resps, s'') \<Rightarrow> (resp # resps, s'')))"

inductive reachable :: "state \<Rightarrow> bool" where
  reachable_init: "reachable init_state"
| reachable_step: "reachable s \<Longrightarrow> reachable (snd (handle r s))"

section \<open>Notions of the specification\<close>

text \<open>The live records, in the order of the dictionary \<open>transactions\<close>.\<close>

definition live_records :: "state \<Rightarrow> tx list" where
  "live_records s = map snd (transactions s)"

definition of_product :: "string \<Rightarrow> tx \<Rightarrow> bool" where
  "of_product p t \<longleftrightarrow> product_id t = p"

definition of_customer :: "string \<Rightarrow> tx \<Rightarrow> bool" where
  "of_customer c t \<longleftrightarrow> customer_id t = c"

text \<open>
  The total of a record: \<open>quantity * price\<close> as a number, and the float that the program
  computes for it when \<open>float(quantity)\<close> does not raise.
\<close>

definition exact_total :: "tx \<Rightarrow> rat" where
  "exact_total t = of_int (quantity t) * price t"

definition float_total :: "tx \<Rightarrow> rat" where
  "float_total t = fl (fl (of_int (quantity t)) * price t)"

text \<open>\<open>{r.id for r in records if P(r)}\<close> and \<open>sum(total(r) for r in records if P(r))\<close>.\<close>

definition record_ids_where :: "(tx \<Rightarrow> bool) \<Rightarrow> state \<Rightarrow> int set" where
  "record_ids_where P s = id_tx ` set (filter P (live_records s))"

definition total_where :: "(tx \<Rightarrow> bool) \<Rightarrow> state \<Rightarrow> rat" where
  "total_where P s = sum_list (map exact_total (filter P (live_records s)))"

subsection \<open>Requests that fail, amounts that stay finite\<close>

text \<open>An answer with status 500: an exception has left the handler.\<close>

definition is_server_error :: "response \<Rightarrow> bool" where
  "is_server_error r \<longleftrightarrow> (case r of ServerError e \<Rightarrow> True | _ \<Rightarrow> False)"

text \<open>The integers that \<open>float\<close> converts.\<close>

definition convertible :: "int \<Rightarrow> bool" where
  "convertible n \<longleftrightarrow> \<bar>n\<bar> < 2 ^ 1024 - 2 ^ 970"

text \<open>
  All the amounts of a store are below the bound at which Python yields \<open>inf\<close>: the totals
  of the live records and the entries of both ledgers.
\<close>

definition finite_amounts :: "state \<Rightarrow> bool" where
  "finite_amounts s \<longleftrightarrow>
     list_all (\<lambda>it. float_total (snd it) < 2 ^ 1024 - 2 ^ 970) (transactions s) \<and>
     list_all (\<lambda>kv. snd kv < 2 ^ 1024 - 2 ^ 970) (product_totals s) \<and>
     list_all (\<lambda>kv. snd kv < 2 ^ 1024 - 2 ^ 970) (customer_totals s)"

text \<open>
  The stores that the service reaches while no request is answered with status 500 and
  no amount becomes infinite.
\<close>

inductive reachable_clean :: "state \<Rightarrow> bool" where
  clean_init: "reachable_clean init_state"
| clean_step:
    "reachable_clean s \<Longrightarrow> \<not> is_server_error (fst (handle r s)) \<Longrightarrow>
     finite_amounts (snd (handle r s)) \<Longrightarrow> reachable_clean (snd (handle r s))"

text \<open>The same for a given list of requests.\<close>

fun clean_run :: "request list \<Rightarrow> state \<Rightarrow> bool" where
  "clean_run [] s \<longleftrightarrow> True"
| "clean_run (r # rs) s \<longleftrightarrow>
     (case handle r s of
        (resp, s') \<Rightarrow> \<not> is_server_error resp \<and> finite_amounts s' \<and> clean_run rs s')"

subsection \<open>The invariant of the indexes\<close>

text \<open>
  The ids and the sum of the totals of the records of the dictionary, grouped by a key
  field \<open>f\<close> (\<open>product_id\<close> or \<open>customer_id\<close>), and what it means for an index and for a
  ledger to agree with them.
\<close>

definition ids_by :: "(tx \<Rightarrow> string) \<Rightarrow> (int \<times> tx) list \<Rightarrow> string \<Rightarrow> int set" where
  "ids_by f ts p = fst ` set (filter (\<lambda>it. f (snd it) = p) ts)"

definition sum_by :: "(tx \<Rightarrow> string) \<Rightarrow> (int \<times> tx) list \<Rightarrow> string \<Rightarrow> rat" where
  "sum_by f ts p =
     sum_list (map (\<lambda>it. exact_total (snd it)) (filter (\<lambda>it. f (snd it) = p) ts))"

definition idx_rel :: "('k \<times> int set) list \<Rightarrow> ('k \<Rightarrow> int set) \<Rightarrow> bool" where
  "idx_rel idx I \<longleftrightarrow> (\<forall>p. map_of idx p = (if I p = {} then None else Some (I p)))"

definition led_rel :: "('k \<times> rat) list \<Rightarrow> ('k \<Rightarrow> rat) \<Rightarrow> bool" where
  "led_rel led S \<longleftrightarrow> (\<forall>p. case map_of led p of None \<Rightarrow> S p = 0 | Some v \<Rightarrow> v = S p)"

definition wf_record :: "int \<Rightarrow> int \<times> tx \<Rightarrow> bool" where
  "wf_record n it \<longleftrightarrow>
     id_tx (snd it) = fst it \<and> 1 \<le> fst it \<and> fst it < n \<and>
     0 < quantity (snd it) \<and> convertible (quantity (snd it)) \<and> 0 \<le> price (snd it)"

definition dicts_distinct :: "state \<Rightarrow> bool" where
  "dicts_distinct s \<longleftrightarrow>
     distinct (map fst (product_index s)) \<and> distinct (map fst (customer_index s)) \<and>
     distinct (map fst (product_totals s)) \<and> distinct (map fst (customer_totals s))"

definition store_inv :: "state \<Rightarrow> bool" where
  "store_inv s \<longleftrightarrow>
     1 \<le> next_id s \<and>
     distinct (map fst (transactions s)) \<and>
     list_all (wf_record (next_id s)) (transactions s) \<and>
     idx_rel (product_index s) (ids_by product_id (transactions s)) \<and>
     idx_rel (customer_index s) (ids_by customer_id (transactions s)) \<and>
     dicts_distinct s"

text \<open>The four assignments of \<open>_index_transaction\<close> and of \<open>_unindex_transaction\<close>.\<close>

definition index_with :: "int \<Rightarrow> tx \<Rightarrow> rat \<Rightarrow> state \<Rightarrow> state" where
  "index_with tx_id t tot s =
     s\<lparr>product_index := setdefault_add (product_id t) tx_id (product_index s),
       customer_index := setdefault_add (customer_id t) tx_id (customer_index s),
       product_totals := add_total (product_id t) tot (product_totals s),
       customer_totals := add_total (customer_id t) tot (customer_totals s)\<rparr>"

definition unindex_with :: "int \<Rightarrow> tx \<Rightarrow> rat \<Rightarrow> state \<Rightarrow> state" where
  "unindex_with tx_id t tot s =
     s\<lparr>product_index := discard_id (product_id t) tx_id (product_index s),
       customer_index := discard_id (customer_id t) tx_id (customer_index s),
       product_totals := sub_total (product_id t) tot (product_totals s),
       customer_totals := sub_total (customer_id t) tot (customer_totals s)\<rparr>"

text \<open>The dictionary that \<open>tx.update({...})\<close> of \<open>update_transaction\<close> leaves in the record.\<close>

definition apply_update :: "normalized \<Rightarrow> tx \<Rightarrow> tx" where
  "apply_update n t =
     t\<lparr>product_id := (case n_product_id n of None \<Rightarrow> product_id t | Some v \<Rightarrow> v),
       product_name := (case n_product_name n of None \<Rightarrow> product_name t | Some v \<Rightarrow> v),
       customer_id := (case n_customer_id n of None \<Rightarrow> customer_id t | Some v \<Rightarrow> v),
       customer_name := (case n_customer_name n of None \<Rightarrow> customer_name t | Some v \<Rightarrow> v),
       quantity := (case n_quantity n of None \<Rightarrow> quantity t | Some v \<Rightarrow> v),
       price := (case n_price n of None \<Rightarrow> price t | Some v \<Rightarrow> v),
       timestamp := (case n_timestamp n of None \<Rightarrow> timestamp t | Some v \<Rightarrow> v)\<rparr>"

text \<open>The record that \<open>create_transaction\<close> builds from a normalized payload.\<close>

definition new_tx :: "timestamp \<Rightarrow> int \<Rightarrow> normalized \<Rightarrow> tx" where
  "new_tx now i n =
     \<lparr>id_tx = i, product_id = the (n_product_id n),
      product_name = (case n_product_name n of None \<Rightarrow> None | Some v \<Rightarrow> v),
      customer_id = the (n_customer_id n),
      customer_name = (case n_customer_name n of None \<Rightarrow> None | Some v \<Rightarrow> v),
      quantity = the (n_quantity n), price = the (n_price n),
      timestamp = (case n_timestamp n of None \<Rightarrow> now | Some v \<Rightarrow> v)\<rparr>"


subsection \<open>Exact amounts\<close>

text \<open>
  A store in which no float operation rounds: the prices of the live records are whole
  numbers and the totals of the live records sum to at most \<open>2 ^ 53\<close>.
\<close>

definition whole :: "rat \<Rightarrow> bool" where
  "whole x \<longleftrightarrow> of_int \<lfloor>x\<rfloor> = x"

definition exact_store :: "state \<Rightarrow> bool" where
  "exact_store s \<longleftrightarrow>
     list_all (\<lambda>it. whole (price (snd it))) (transactions s) \<and>
     sum_list (map exact_total (live_records s)) \<le> 2 ^ 53"

text \<open>
  The stores that the service reaches while no request is answered with status 500 and
  every store on the way is exact.
\<close>

inductive reachable_exact :: "state \<Rightarrow> bool" where
  exact_init: "reachable_exact init_state"
| exact_step:
    "reachable_exact s \<Longrightarrow> \<not> is_server_error (fst (handle r s)) \<Longrightarrow>
     exact_store (snd (handle r s)) \<Longrightarrow> reachable_exact (snd (handle r s))"

fun exact_run :: "request list \<Rightarrow> state \<Rightarrow> bool" where
  "exact_run [] s \<longleftrightarrow> True"
| "exact_run (r # rs) s \<longleftrightarrow>
     (case handle r s of
        (resp, s') \<Rightarrow> \<not> is_server_error resp \<and> exact_store s' \<and> exact_run rs s')"

text \<open>The invariant of the ledgers in such a store.\<close>

definition ledger_inv :: "state \<Rightarrow> bool" where
  "ledger_inv s \<longleftrightarrow>
     store_inv s \<and> exact_store s \<and>
     led_rel (product_totals s) (sum_by product_id (transactions s)) \<and>
     led_rel (customer_totals s) (sum_by customer_id (transactions s))"

text \<open>
  What \<open>_unindex_transaction\<close> followed by \<open>_index_transaction\<close> leaves of a ledger entry
  \<open>v\<close> for a record of total \<open>a\<close>: \<open>(v - a) + a\<close> in floats, from 0 where the subtraction
  leaves nothing above 0.
\<close>

definition recomputed :: "rat \<Rightarrow> rat \<Rightarrow> rat" where
  "recomputed v a = (let w = fl (v - a) in fl ((if w \<le> 0 then 0 else w) + a))"

subsection \<open>Concrete requests and states\<close>

definition example_payload :: "string \<Rightarrow> string \<Rightarrow> int \<Rightarrow> rat \<Rightarrow> payload" where
  "example_payload pid cid qty prc =
     \<lparr>product_id_in = Some pid, product_name_in = None, customer_id_in = Some cid,
      customer_name_in = None, quantity_in = Some (Converted qty),
      price_in = Some (Converted prc), timestamp_in = None\<rparr>"

text \<open>The payload \<open>{}\<close>.\<close>

definition empty_payload :: payload where
  "empty_payload =
     \<lparr>product_id_in = None, product_name_in = None, customer_id_in = None,
      customer_name_in = None, quantity_in = None, price_in = None, timestamp_in = None\<rparr>"

text \<open>The record that a create with \<open>example_payload\<close> at time 0 stores under the id \<open>i\<close>.\<close>

definition sale :: "int \<Rightarrow> string \<Rightarrow> string \<Rightarrow> int \<Rightarrow> rat \<Rightarrow> tx" where
  "sale i pid cid qty prc =
     \<lparr>id_tx = i, product_id = pid, product_name = None, customer_id = cid,
      customer_name = None, quantity = qty, price = prc, timestamp = 0\<rparr>"

text \<open>Three sales, the first of them deleted again.\<close>

definition demo_requests :: "request list" where
  "demo_requests = [Create 0 (example_payload ''P1'' ''C1'' 2 10),
                    Create 0 (example_payload ''P1'' ''C2'' 1 5),
                    Create 0 (example_payload ''P2'' ''C2'' 1 25),
                    Delete 1]"

definition s_demo :: state where
  "s_demo = snd (run demo_requests init_state)"

text \<open>One sale at the price 0.\<close>

definition s_free :: state where
  "s_free = snd (create_transaction 0 (example_payload ''P1'' ''C1'' 1 0) init_state)"

text \<open>Two sales of one product, the second at the price 0, and the first deleted again.\<close>

definition s_pruned :: state where
  "s_pruned = snd (run [Create 0 (example_payload ''P1'' ''C1'' 1 5),
                        Create 0 (example_payload ''P1'' ''C1'' 1 0),
                        Delete 1] init_state)"


text \<open>
  A payload that passes the validation and whose quantity \<open>float\<close> cannot convert, and the
  store after the create with it.
\<close>

definition huge_payload :: payload where
  "huge_payload = example_payload ''P1'' ''C1'' (10 ^ 309) 1"

definition s_stuck :: state where
  "s_stuck = snd (create_transaction 0 huge_payload init_state)"

subsection \<open>The ids that a run hands out\<close>

text \<open>The ids in the answers of the successful creates of a run, in the order of the run.\<close>

fun created_ids :: "response list \<Rightarrow> int list" where
  "created_ids [] = []"
| "created_ids (Created v # rs) = id_tx (fst v) # created_ids rs"
| "created_ids (_ # rs) = created_ids rs"

text \<open>
  A create, a create that fails in \<open>_index_transaction\<close>, a delete, a create that fails the
  validation, and one more create.
\<close>

definition ids_demo :: "request list" where
  "ids_demo = [Create 0 (example_payload ''P1'' ''C1'' 2 10),
               Create 0 huge_payload,
               Delete 1,
               Create 0 empty_payload,
               Create 0 (example_payload ''P2'' ''C2'' 1 25)]"




subsection \<open>Listing queries\<close>

text \<open>
  What any iteration of a Python set does: it yields each member once. Nothing more is
  fixed by the language.
\<close>

definition set_iteration :: "(int set \<Rightarrow> int list) \<Rightarrow> bool" where
  "set_iteration set_iter \<longleftrightarrow>
     (\<forall>S. finite S \<longrightarrow> set (set_iter S) = S \<and> distinct (set_iter S))"

text \<open>
  The predicates of a listing query. A \<open>product_id\<close> or \<open>customer_id\<close> filter is supplied
  when the parameter is present and not the empty string; it selects by exact match.
\<close>

definition selected :: "string option \<Rightarrow> string option \<Rightarrow> tx \<Rightarrow> bool" where
  "selected pid cid t \<longleftrightarrow>
     (case pid of None \<Rightarrow> True | Some p \<Rightarrow> p = [] \<or> product_id t = p) \<and>
     (case cid of None \<Rightarrow> True | Some c \<Rightarrow> c = [] \<or> customer_id t = c)"

definition sel_ids :: "string option \<Rightarrow> string option \<Rightarrow> (int \<times> tx) list \<Rightarrow> int set" where
  "sel_ids pid cid ts = fst ` set (filter (\<lambda>it. selected pid cid (snd it)) ts)"

text \<open>
  The four tests of the loop of \<open>_apply_filters\<close> on a record whose total is computed
  without an exception: \<open>True\<close> when the record is appended to \<open>results\<close>.
\<close>

definition keep :: "timestamp option \<Rightarrow> timestamp option \<Rightarrow> rat option \<Rightarrow> rat option \<Rightarrow> tx \<Rightarrow> bool" where
  "keep start_date end_date min_total max_total t \<longleftrightarrow>
     \<not> (case start_date of None \<Rightarrow> False | Some sd \<Rightarrow> timestamp t < sd) \<and>
     \<not> (case end_date of None \<Rightarrow> False | Some ed \<Rightarrow> timestamp t > ed) \<and>
     \<not> (case min_total of None \<Rightarrow> False | Some mn \<Rightarrow> float_total t < mn) \<and>
     \<not> (case max_total of None \<Rightarrow> False | Some mx \<Rightarrow> float_total t > mx)"

text \<open>
  All the predicates of a query: the two exact matches, the inclusive bounds on the
  timestamp and the inclusive bounds on the total, the float \<open>quantity * price\<close>.
\<close>

definition matches :: "list_args \<Rightarrow> tx \<Rightarrow> bool" where
  "matches args t \<longleftrightarrow>
     selected (a_product_id args) (a_customer_id args) t \<and>
     (case a_start_date args of TsOk sd \<Rightarrow> sd \<le> timestamp t | _ \<Rightarrow> True) \<and>
     (case a_end_date args of TsOk ed \<Rightarrow> timestamp t \<le> ed | _ \<Rightarrow> True) \<and>
     (case a_min_total args of Some (Some mn) \<Rightarrow> mn \<le> float_total t | _ \<Rightarrow> True) \<and>
     (case a_max_total args of Some (Some mx) \<Rightarrow> float_total t \<le> mx | _ \<Rightarrow> True)"

text \<open>
  The page of the specification: the part of the filtered result that starts at the
  offset (a negative offset is 0, as is a missing one) and has the length of the limit
  (a negative or missing limit: all that remains).
\<close>

definition page_of :: "int option \<Rightarrow> int option \<Rightarrow> 'a list \<Rightarrow> 'a list" where
  "page_of limit offset full =
     (let rest = drop (case offset of None \<Rightarrow> 0 | Some v \<Rightarrow> nat (max 0 v)) full
      in case limit of
           None \<Rightarrow> rest
         | Some l \<Rightarrow> if l < 0 then rest else take (nat l) rest)"

text \<open>The filters that the handler can parse: no bad timestamp and no bad number.\<close>

definition parsed :: "list_args \<Rightarrow> bool" where
  "parsed args \<longleftrightarrow>
     (a_start_date args = TsEmpty \<or> (\<exists>t. a_start_date args = TsOk t)) \<and>
     (a_end_date args = TsEmpty \<or> (\<exists>t. a_end_date args = TsOk t)) \<and>
     a_min_total args \<noteq> Some None \<and> a_max_total args \<noteq> Some None"

text \<open>
  One order of iteration, the one of CPython for a small set: a set of fewer than five
  members lives in a table of eight slots, a small non-negative integer \<open>i\<close> in slot
  \<open>i mod 8\<close>, and the iteration goes through the slots. Where the members fall into
  different slots, as in \<open>{1, 8}\<close>, this is the order below: \<open>list({1, 8})\<close> is \<open>[8, 1]\<close>.
\<close>

definition slot_order :: "int set \<Rightarrow> int list" where
  "slot_order S = sort_key (\<lambda>i. i mod 8) (sorted_list_of_set S)"

text \<open>The query without parameters, and \<open>?product_id=P1&min_total=10&limit=1&offset=1\<close>.\<close>

definition no_filter :: list_args where
  "no_filter = \<lparr>a_product_id = None, a_customer_id = None, a_start_date = TsEmpty,
     a_end_date = TsEmpty, a_min_total = None, a_max_total = None, a_limit = None,
     a_offset = None\<rparr>"

definition query_demo :: list_args where
  "query_demo = no_filter\<lparr>a_product_id := Some ''P1'', a_min_total := Some (Some 10),
     a_limit := Some 1, a_offset := Some 1\<rparr>"



section \<open>Floating point\<close>

lemma pow2_nat: "0 \<le> k \<Longrightarrow> (2::rat) ^ nat k = 2 powi k"
  by (simp add: power_int_def)

lemma of_int_le_pow2: "(a::int) \<le> 2 ^ n \<Longrightarrow> (of_int a :: rat) \<le> 2 ^ n"
  by (metis of_int_le_iff of_int_numeral of_int_power)

lemma pow2_le_of_int: "2 ^ n \<le> (a::int) \<Longrightarrow> (2::rat) ^ n \<le> of_int a"
  by (metis of_int_le_iff of_int_numeral of_int_power)

lemma bitlen_pos: "0 < a \<Longrightarrow> 1 \<le> bitlen a"
  using bitlen_nonneg [of a] bitlen_eq_zero_iff [of a] by linarith

lemma pow2_le_exp: "(2::rat) powi a \<le> 2 powi b \<Longrightarrow> a \<le> b"
  using power_int_strict_increasing [of b a "2::rat"] by (cases "a \<le> b") auto

text \<open>\<open>flog2\<close> is the exponent of the power of 2 at or below its argument.\<close>

lemma flog2_bounds:
  assumes "0 < x"
  shows "2 powi flog2 x \<le> x" and "x < 2 powi (flog2 x + 1)"
proof -
  show "2 powi flog2 x \<le> x"
  proof (cases "1 \<le> x")
    case True
    then have m: "0 < \<lfloor>x\<rfloor>" by linarith
    from bitlen_bounds [OF m] have "2 ^ nat (bitlen \<lfloor>x\<rfloor> - 1) \<le> \<lfloor>x\<rfloor>" by simp
    then have "(2::rat) ^ nat (bitlen \<lfloor>x\<rfloor> - 1) \<le> of_int \<lfloor>x\<rfloor>" by (rule pow2_le_of_int)
    also have "\<dots> \<le> x" by simp
    finally show ?thesis using True bitlen_pos [OF m] by (simp add: flog2_def pow2_nat)
  next
    case False
    let ?c = "\<lceil>1 / x\<rceil>"
    from False assms have y: "1 < 1 / x" by simp
    then have c: "0 < ?c - 1" by linarith
    from bitlen_bounds [OF c] have "?c \<le> 2 ^ nat (bitlen (?c - 1))" by simp
    then have "(of_int ?c :: rat) \<le> 2 ^ nat (bitlen (?c - 1))" by (rule of_int_le_pow2)
    moreover have "1 / x \<le> of_int ?c" by simp
    ultimately have "1 / x \<le> 2 ^ nat (bitlen (?c - 1))" by linarith
    then have "1 / x \<le> 2 powi bitlen (?c - 1)" by (simp add: pow2_nat bitlen_nonneg)
    then have "1 / (2 powi bitlen (?c - 1)) \<le> x"
      using assms by (simp add: field_simps)
    then show ?thesis using False by (simp add: flog2_def power_int_minus_divide)
  qed
  show "x < 2 powi (flog2 x + 1)"
  proof (cases "1 \<le> x")
    case True
    then have m: "0 < \<lfloor>x\<rfloor>" by linarith
    from bitlen_bounds [OF m] have "\<lfloor>x\<rfloor> + 1 \<le> 2 ^ nat (bitlen \<lfloor>x\<rfloor>)" by simp
    then have "(of_int (\<lfloor>x\<rfloor> + 1) :: rat) \<le> 2 ^ nat (bitlen \<lfloor>x\<rfloor>)"
      by (rule of_int_le_pow2)
    moreover have "x < of_int (\<lfloor>x\<rfloor> + 1)" by simp linarith
    ultimately have "x < 2 ^ nat (bitlen \<lfloor>x\<rfloor>)" by linarith
    then show ?thesis using True by (simp add: flog2_def pow2_nat bitlen_nonneg)
  next
    case False
    let ?c = "\<lceil>1 / x\<rceil>"
    let ?k = "bitlen (?c - 1)"
    from False assms have y: "1 < 1 / x" by simp
    then have c: "0 < ?c - 1" by linarith
    from bitlen_bounds [OF c] have "2 ^ nat (?k - 1) \<le> ?c - 1" by simp
    then have "(2::rat) ^ nat (?k - 1) \<le> of_int (?c - 1)" by (rule pow2_le_of_int)
    moreover have "of_int (?c - 1) < 1 / x" by simp linarith
    ultimately have "(2::rat) ^ nat (?k - 1) < 1 / x" by linarith
    then have "2 powi (?k - 1) < 1 / x" using bitlen_pos [OF c] by (simp add: pow2_nat)
    then have "x < 1 / (2 powi (?k - 1))" using assms by (simp add: field_simps)
    also have "1 / (2 powi (?k - 1)) = (2::rat) powi (- ?k + 1)"
      by (simp add: power_int_minus_divide [symmetric])
    finally show ?thesis using False by (simp add: flog2_def)
  qed
qed

lemma round_half_even_of_int [simp]: "round_half_even (of_int m) = m"
  by (simp add: round_half_even_def)

lemma fl_0 [simp]: "fl 0 = 0"
  by (simp add: fl_def)

lemma fl_of_integral_quotient:
  assumes "x \<noteq> 0"
    and "x / 2 powi (max (flog2 \<bar>x\<bar>) (- 1022) - 52) = of_int m"
  shows "fl x = x"
proof -
  let ?q = "(2::rat) powi (max (flog2 \<bar>x\<bar>) (- 1022) - 52)"
  have q: "?q \<noteq> 0" by simp
  have "fl x = of_int (round_half_even (x / ?q)) * ?q"
    using assms(1) by (simp add: fl_def Let_def)
  also have "\<dots> = (x / ?q) * ?q" by (simp only: assms(2) round_half_even_of_int)
  also have "\<dots> = x" using q by simp
  finally show ?thesis .
qed

text \<open>
  A number with at most 53 significant bits, and no bit below \<open>2 ^ - 1074\<close>, is a float:
  rounding leaves it as it is.
\<close>

lemma fl_exact:
  assumes n: "\<bar>n\<bar> \<le> 2 ^ 53" and j: "- 1074 \<le> j"
  shows "fl (of_int n * 2 powi j) = of_int n * 2 powi j"
proof (cases "n = 0")
  case True
  then show ?thesis by simp
next
  case False
  let ?x = "of_int n * (2::rat) powi j"
  let ?e = "flog2 \<bar>?x\<bar>"
  let ?E = "max ?e (- 1022)"
  have x0: "?x \<noteq> 0" using False by simp
  have ax: "\<bar>?x\<bar> = of_int \<bar>n\<bar> * 2 powi j" by (simp add: abs_mult)
  have pos: "0 < \<bar>?x\<bar>" using x0 by simp
  note b = flog2_bounds [OF pos]
  have nb: "(of_int \<bar>n\<bar> :: rat) \<le> 2 ^ 53" using n by (rule of_int_le_pow2)
  have e_le: "?e \<le> j + 53"
  proof -
    have "2 powi ?e \<le> of_int \<bar>n\<bar> * (2::rat) powi j" using b(1) ax by simp
    also have "\<dots> \<le> 2 ^ 53 * 2 powi j" using nb by (intro mult_right_mono) simp_all
    also have "\<dots> = 2 powi (j + 53)" by (simp add: power_int_add)
    finally show ?thesis by (rule pow2_le_exp)
  qed
  have div: "?x / 2 powi (?E - 52) = of_int n * 2 powi (j - ?E + 52)"
    by (simp add: power_int_diff power_int_add field_simps)
  show ?thesis
  proof (cases "0 \<le> j - ?E + 52")
    case True
    then have "(2::rat) powi (j - ?E + 52) = of_int (2 ^ nat (j - ?E + 52))"
      by (simp add: power_int_def)
    then have "?x / 2 powi (?E - 52) = of_int (n * 2 ^ nat (j - ?E + 52))"
      by (simp only: div of_int_mult)
    then show ?thesis by (rule fl_of_integral_quotient [OF x0])
  next
    case neg: False
    then have "?E = ?e" using j by linarith
    with neg e_le have e: "?e = j + 53" by linarith
    have "2 powi (j + 53) \<le> of_int \<bar>n\<bar> * (2::rat) powi j" using b(1) ax e by simp
    then have "(2::rat) ^ 53 * 2 powi j \<le> of_int \<bar>n\<bar> * 2 powi j" by (simp add: power_int_add)
    then have "(2::rat) ^ 53 \<le> of_int \<bar>n\<bar>" by simp
    with nb have "(of_int \<bar>n\<bar> :: rat) = of_int (2 ^ 53)" by simp
    then have an: "\<bar>n\<bar> = 2 ^ 53" by (simp only: of_int_eq_iff)
    then have "n = 2 ^ 53 \<or> n = - (2 ^ 53)" by linarith
    then have "n = 2 * (n div 2)" by auto
    then have h: "(of_int n :: rat) = 2 * of_int (n div 2)"
      by (metis of_int_mult of_int_numeral)
    have d: "j - ?E + 52 = - 1" using e \<open>?E = ?e\<close> by simp
    have "of_int n * (2::rat) powi (- 1) = of_int (n div 2)"
      by (subst h) (simp add: power_int_minus)
    then have "of_int n * (2::rat) powi (j - ?E + 52) = of_int (n div 2)"
      by (simp only: d)
    then have "?x / 2 powi (?E - 52) = of_int (n div 2)" by (simp only: div)
    then show ?thesis by (rule fl_of_integral_quotient [OF x0])
  qed
qed

lemma fl_of_int: "\<bar>n\<bar> \<le> 2 ^ 53 \<Longrightarrow> fl (of_int n) = of_int n"
  using fl_exact [of n 0] by simp

lemma fl_numeral [simp]: "numeral k \<le> (2::int) ^ 53 \<Longrightarrow> fl (numeral k) = numeral k"
  using fl_of_int [of "numeral k"] by simp

lemma fl_1 [simp]: "fl 1 = 1"
  using fl_of_int [of 1] by simp

lemma fl_1024th [simp]: "fl (1 / 1024) = 1 / 1024"
  using fl_exact [of 1 "- 10"] by (simp add: power_int_minus field_simps)

lemma float_of_int_convertible:
  "convertible n \<Longrightarrow> float_of_int n = Inr (fl (of_int n))"
  by (simp add: convertible_def float_of_int_def)

lemma float_of_int_Inr: "float_of_int n = Inr q \<Longrightarrow> convertible n"
  by (simp add: convertible_def float_of_int_def split: if_splits)

lemma transaction_total_convertible:
  "convertible (quantity t) \<Longrightarrow> transaction_total t = Inr (float_total t)"
  by (simp add: transaction_total_def float_total_def float_of_int_convertible)

lemma transaction_total_Inr:
  "transaction_total t = Inr tot \<Longrightarrow> convertible (quantity t) \<and> tot = float_total t"
  by (auto simp: transaction_total_def float_total_def float_of_int_def convertible_def
      split: if_splits)

section \<open>Dictionaries and indexes\<close>

lemma set_update_subset: "x \<in> set (AList.update k v al) \<Longrightarrow> x = (k, v) \<or> x \<in> set al"
  by (induction al) (auto split: if_splits)

lemma set_delete_subset: "x \<in> set (AList.delete k al) \<Longrightarrow> x \<in> set al \<and> fst x \<noteq> k"
  by (auto simp: AList.delete_eq)

lemma idx_rel_add: "idx_rel idx I \<Longrightarrow> idx_rel (setdefault_add k i idx) (I(k := insert i (I k)))"
  by (auto simp: idx_rel_def setdefault_add_def dict_get_def update_conv')

lemma idx_rel_discard: "idx_rel idx I \<Longrightarrow> idx_rel (discard_id k i idx) (I(k := I k - {i}))"
  by (auto simp: idx_rel_def discard_id_def Let_def update_conv' delete_conv' split: option.splits)

lemma mem_ids_by:
  "distinct (map fst ts) \<Longrightarrow> i \<in> ids_by f ts p \<longleftrightarrow> (\<exists>t. map_of ts i = Some t \<and> f t = p)"
  by (force simp: ids_by_def image_iff)

lemma ids_by_delete:
  "distinct (map fst ts) \<Longrightarrow> map_of ts i = Some t \<Longrightarrow>
   ids_by f (AList.delete i ts) = (ids_by f ts)(f t := ids_by f ts (f t) - {i})"
  by (rule ext, rule set_eqI)
     (auto simp: mem_ids_by distinct_delete delete_conv' dest: eq_key_imp_eq_value)

lemma ids_by_update:
  "distinct (map fst ts) \<Longrightarrow>
   ids_by f (AList.update i t' ts) =
     (ids_by f (AList.delete i ts))(f t' := insert i (ids_by f (AList.delete i ts) (f t')))"
  by (rule ext, rule set_eqI)
     (auto simp: mem_ids_by distinct_delete distinct_update delete_conv' update_conv')

lemma comp_unindex:
  assumes d: "distinct (map fst ts)" and m: "map_of ts i = Some t"
  shows "idx_rel idx (ids_by f ts) \<Longrightarrow>
           idx_rel (discard_id (f t) i idx) (ids_by f (AList.delete i ts))"
  by (simp add: ids_by_delete [OF d m] idx_rel_discard)

lemma comp_index:
  assumes d: "distinct (map fst ts)"
  shows "idx_rel idx (ids_by f (AList.delete i ts)) \<Longrightarrow>
           idx_rel (setdefault_add (f t') i idx) (ids_by f (AList.update i t' ts))"
  by (simp add: ids_by_update [OF d] idx_rel_add)

lemma distinct_setdefault_add:
  "distinct (map fst d) \<Longrightarrow> distinct (map fst (setdefault_add k i d))"
  by (simp add: setdefault_add_def distinct_update)

lemma distinct_add_total:
  "distinct (map fst d) \<Longrightarrow> distinct (map fst (add_total k a d))"
  by (simp add: add_total_def distinct_update)

lemma distinct_discard_id:
  "distinct (map fst d) \<Longrightarrow> distinct (map fst (discard_id k i d))"
  by (simp add: discard_id_def Let_def distinct_update distinct_delete split: option.splits)

lemma distinct_sub_total:
  "distinct (map fst d) \<Longrightarrow> distinct (map fst (sub_total k a d))"
  by (simp add: sub_total_def Let_def distinct_update distinct_delete)

lemma index_with_sel:
  "transactions (index_with i t tot s) = transactions s"
  "next_id (index_with i t tot s) = next_id s"
  "product_index (index_with i t tot s) = setdefault_add (product_id t) i (product_index s)"
  "customer_index (index_with i t tot s) = setdefault_add (customer_id t) i (customer_index s)"
  "product_totals (index_with i t tot s) = add_total (product_id t) tot (product_totals s)"
  "customer_totals (index_with i t tot s) = add_total (customer_id t) tot (customer_totals s)"
  by (simp_all add: index_with_def)

lemma unindex_with_sel:
  "transactions (unindex_with i t tot s) = transactions s"
  "next_id (unindex_with i t tot s) = next_id s"
  "product_index (unindex_with i t tot s) = discard_id (product_id t) i (product_index s)"
  "customer_index (unindex_with i t tot s) = discard_id (customer_id t) i (customer_index s)"
  "product_totals (unindex_with i t tot s) = sub_total (product_id t) tot (product_totals s)"
  "customer_totals (unindex_with i t tot s) = sub_total (customer_id t) tot (customer_totals s)"
  by (simp_all add: unindex_with_def)

lemma index_transaction_eq:
  "index_transaction i t s =
     (case transaction_total t of Inl e \<Rightarrow> Inl e | Inr tot \<Rightarrow> Inr (index_with i t tot s))"
  by (simp add: index_transaction_def index_with_def split: sum.splits)

lemma unindex_transaction_eq:
  "unindex_transaction i t s =
     (case transaction_total t of Inl e \<Rightarrow> Inl e | Inr tot \<Rightarrow> Inr (unindex_with i t tot s))"
  by (simp add: unindex_transaction_def unindex_with_def split: sum.splits)

lemma serialize_transaction_eq:
  "serialize_transaction t =
     (case transaction_total t of Inl e \<Rightarrow> Inl e | Inr tot \<Rightarrow> Inr (t, round2 tot))"
  by (simp add: serialize_transaction_def)

lemma dicts_distinct_index_with: "dicts_distinct s \<Longrightarrow> dicts_distinct (index_with i t tot s)"
  by (simp add: dicts_distinct_def index_with_sel distinct_setdefault_add distinct_add_total)

lemma dicts_distinct_unindex_with: "dicts_distinct s \<Longrightarrow> dicts_distinct (unindex_with i t tot s)"
  by (simp add: dicts_distinct_def unindex_with_sel distinct_discard_id distinct_sub_total)

lemma dicts_distinct_fields [simp]:
  "dicts_distinct (s\<lparr>transactions := ts\<rparr>) = dicts_distinct s"
  "dicts_distinct (s\<lparr>next_id := n\<rparr>) = dicts_distinct s"
  by (simp_all add: dicts_distinct_def)

section \<open>What the handlers do\<close>

lemma validate_quantity_pos: "validate_quantity partial v = Inr (Some q, e) \<Longrightarrow> 0 < q"
  by (auto simp: validate_quantity_def split: option.splits converted.splits if_splits)

lemma validate_price_nonneg: "validate_price partial v = Inr (Some p, e) \<Longrightarrow> 0 \<le> p"
  by (auto simp: validate_price_def split: option.splits converted.splits if_splits)

lemma validate_payload_ranges:
  assumes "validate_payload now d partial = Inr (n, errs)"
  shows "n_quantity n = Some q \<Longrightarrow> 0 < q" and "n_price n = Some p \<Longrightarrow> 0 \<le> p"
  using assms
  by (auto simp: validate_payload_def split: prod.splits sum.splits
      dest: validate_quantity_pos validate_price_nonneg)

lemma create_transaction_outcome:
  "create_transaction now d s =
     (case validate_payload now d False of
        Inl e \<Rightarrow> (ServerError e, s)
      | Inr (n, errs) \<Rightarrow>
          if errs \<noteq> [] then (BadRequest errs, s)
          else if n_product_id n = None \<or> n_customer_id n = None \<or>
                  n_quantity n = None \<or> n_price n = None
          then (ServerError KeyError, s)
          else
            (let t = new_tx now (next_id s) n;
                 s2 = s\<lparr>next_id := next_id s + 1,
                        transactions := AList.update (next_id s) t (transactions s)\<rparr>
             in case transaction_total t of
                  Inl e \<Rightarrow> (ServerError e, s2)
                | Inr tot \<Rightarrow> (Created (t, round2 tot), index_with (next_id s) t tot s2)))"
  by (auto simp: create_transaction_def new_tx_def index_transaction_eq serialize_transaction_eq
      Let_def split: sum.splits prod.splits option.splits)

lemma update_transaction_outcome:
  assumes "map_of (transactions s) i = Some t"
  shows "update_transaction now i d s =
     (case validate_payload now d True of
        Inl e \<Rightarrow> (ServerError e, s)
      | Inr (n, errs) \<Rightarrow>
          if errs \<noteq> [] then (BadRequest errs, s)
          else
            (case transaction_total t of
               Inl e \<Rightarrow> (ServerError e, s)
             | Inr tot \<Rightarrow>
                 (let t' = apply_update n t;
                      s2 = (unindex_with i t tot s)
                             \<lparr>transactions := AList.update i t' (transactions s)\<rparr>
                  in case transaction_total t' of
                       Inl e \<Rightarrow> (ServerError e, s2)
                     | Inr tot' \<Rightarrow> (Ok (t', round2 tot'), index_with i t' tot' s2))))"
  using assms
  by (auto simp: update_transaction_def apply_update_def index_transaction_eq
      unindex_transaction_eq serialize_transaction_eq unindex_with_sel Let_def
      split: sum.splits prod.splits)

lemma delete_transaction_outcome:
  assumes "map_of (transactions s) i = Some t"
  shows "delete_transaction i s =
     (let s1 = s\<lparr>transactions := AList.delete i (transactions s)\<rparr>
      in case transaction_total t of
           Inl e \<Rightarrow> (ServerError e, s1)
         | Inr tot \<Rightarrow> (Deleted (t, round2 tot), unindex_with i t tot s1))"
  using assms
  by (auto simp: delete_transaction_def unindex_transaction_eq serialize_transaction_eq Let_def
      split: sum.splits)

lemma read_only:
  "snd (list_transactions set_iter args s) = s"
  "snd (top_customers limit_arg s) = s"
  by (auto simp: list_transactions_def top_customers_def Let_def
      split: sum.splits py_error.splits)

section \<open>The invariant of the indexes holds while no request fails\<close>

lemma inv_store:
  assumes d: "distinct (map fst ts)"
    and w: "list_all (wf_record n) ts" and wt: "wf_record (next_id s2) (i, t')"
    and nn: "n \<le> next_id s2" "1 \<le> next_id s2"
    and ts: "transactions s2 = AList.update i t' ts"
    and pi: "idx_rel (product_index s2) (ids_by product_id (AList.delete i ts))"
    and ci: "idx_rel (customer_index s2) (ids_by customer_id (AList.delete i ts))"
    and dd: "dicts_distinct s2"
  shows "store_inv (index_with i t' tot s2)"
proof -
  have "list_all (wf_record (next_id s2)) (AList.update i t' ts)"
    using w wt nn by (auto simp: list_all_iff wf_record_def dest!: set_update_subset)
  then show ?thesis using d nn dd
    by (simp add: store_inv_def index_with_sel ts distinct_update dicts_distinct_index_with
        comp_index [OF d] pi ci del: dicts_distinct_fields)
qed

lemma inv_remove:
  assumes "store_inv s" and m: "map_of (transactions s) i = Some t"
  shows "store_inv (unindex_with i t tot (s\<lparr>transactions := AList.delete i (transactions s)\<rparr>))"
proof -
  from assms have d: "distinct (map fst (transactions s))"
    and w: "list_all (wf_record (next_id s)) (transactions s)" by (simp_all add: store_inv_def)
  have "list_all (wf_record (next_id s)) (AList.delete i (transactions s))"
    using w by (auto simp: list_all_iff dest: set_delete_subset)
  then show ?thesis using assms(1) d
    by (simp add: store_inv_def unindex_with_sel distinct_delete dicts_distinct_unindex_with
        comp_unindex [OF d m])
qed

lemma inv_create:
  assumes "store_inv s" and ok: "\<not> is_server_error (fst (create_transaction now d s))"
  shows "store_inv (snd (create_transaction now d s))"
proof (cases "validate_payload now d False")
  case (Inl e)
  then show ?thesis using ok by (simp add: create_transaction_outcome is_server_error_def)
next
  case (Inr ne)
  obtain n errs where ne: "ne = (n, errs)" by (cases ne)
  note v = Inr [unfolded ne]
  let ?t = "new_tx now (next_id s) n"
  let ?s2 = "s\<lparr>next_id := next_id s + 1,
                transactions := AList.update (next_id s) ?t (transactions s)\<rparr>"
  show ?thesis
  proof (cases "errs = [] \<and> n_product_id n \<noteq> None \<and> n_customer_id n \<noteq> None \<and>
      n_quantity n \<noteq> None \<and> n_price n \<noteq> None")
    case False
    then show ?thesis using assms v
      by (auto simp: create_transaction_outcome is_server_error_def)
  next
    case True
    then obtain tot where tt: "transaction_total ?t = Inr tot"
      using ok v by (cases "transaction_total ?t")
        (auto simp: create_transaction_outcome is_server_error_def Let_def)
    from True obtain qty prc where f: "n_quantity n = Some qty" "n_price n = Some prc" by auto
    from validate_payload_ranges [OF v] f have r: "0 < qty" "0 \<le> prc" by simp_all
    from assms have d: "distinct (map fst (transactions s))"
      and w: "list_all (wf_record (next_id s)) (transactions s)"
      and one: "1 \<le> next_id s" by (simp_all add: store_inv_def)
    have "next_id s \<notin> fst ` set (transactions s)"
      using w by (auto simp: list_all_iff wf_record_def)
    then have del: "AList.delete (next_id s) (transactions s) = transactions s" by simp
    have wt: "wf_record (next_id ?s2) (next_id s, ?t)"
      using r f one transaction_total_Inr [OF tt] by (simp add: wf_record_def new_tx_def)
    have "store_inv (index_with (next_id s) ?t tot ?s2)"
      using assms(1) one
      by (intro inv_store [OF d w wt]) (simp_all add: del store_inv_def dicts_distinct_def)
    then show ?thesis using True v tt by (auto simp: create_transaction_outcome Let_def)
  qed
qed

lemma inv_delete:
  assumes "store_inv s" and ok: "\<not> is_server_error (fst (delete_transaction i s))"
  shows "store_inv (snd (delete_transaction i s))"
proof (cases "map_of (transactions s) i")
  case None
  then show ?thesis using assms by (simp add: delete_transaction_def)
next
  case (Some t)
  then obtain tot where tt: "transaction_total t = Inr tot"
    using ok by (cases "transaction_total t")
      (auto simp: delete_transaction_outcome is_server_error_def Let_def)
  then show ?thesis using inv_remove [OF assms(1) Some]
    by (simp add: delete_transaction_outcome [OF Some] Let_def)
qed

lemma inv_update:
  assumes "store_inv s" and ok: "\<not> is_server_error (fst (update_transaction now i d s))"
  shows "store_inv (snd (update_transaction now i d s))"
proof (cases "map_of (transactions s) i")
  case None
  then show ?thesis using assms by (simp add: update_transaction_def)
next
  case (Some t)
  note out = update_transaction_outcome [OF Some, of now d]
  show ?thesis
  proof (cases "validate_payload now d True")
    case (Inl e)
    then show ?thesis using ok by (simp add: out is_server_error_def)
  next
    case (Inr ne)
    obtain n errs where ne: "ne = (n, errs)" by (cases ne)
    note v = Inr [unfolded ne]
    show ?thesis
    proof (cases "errs = []")
      case False
      then show ?thesis using assms(1) v by (simp add: out)
    next
      case True
      obtain tot where tt: "transaction_total t = Inr tot"
        using ok v True by (cases "transaction_total t") (auto simp: out is_server_error_def)
      let ?t' = "apply_update n t"
      let ?s2 = "(unindex_with i t tot s)\<lparr>transactions := AList.update i ?t' (transactions s)\<rparr>"
      obtain tot' where tt': "transaction_total ?t' = Inr tot'"
        using ok v True tt by (cases "transaction_total ?t'")
          (auto simp: out is_server_error_def Let_def)
      from assms have d: "distinct (map fst (transactions s))"
        and w: "list_all (wf_record (next_id s)) (transactions s)"
        and one: "1 \<le> next_id s" by (simp_all add: store_inv_def)
      from Some have "(i, t) \<in> set (transactions s)" by (rule map_of_SomeD)
      with w have wt: "wf_record (next_id s) (i, t)" by (simp add: list_all_iff)
      have wt': "wf_record (next_id ?s2) (i, ?t')"
        using wt validate_payload_ranges [OF v] transaction_total_Inr [OF tt']
        by (auto simp: wf_record_def apply_update_def unindex_with_sel split: option.splits)
      have "store_inv (index_with i ?t' tot' ?s2)"
        using assms(1) one
        by (intro inv_store [OF d w wt'])
           (simp_all add: store_inv_def unindex_with_sel comp_unindex [OF d Some]
              dicts_distinct_unindex_with)
      then show ?thesis using v True tt tt' by (simp add: out Let_def)
    qed
  qed
qed

lemma inv_init: "store_inv init_state"
  by (simp add: store_inv_def init_state_def idx_rel_def ids_by_def dicts_distinct_def)

lemma inv_handle:
  "store_inv s \<Longrightarrow> \<not> is_server_error (fst (handle r s)) \<Longrightarrow> store_inv (snd (handle r s))"
  by (cases r) (simp_all add: inv_create inv_update inv_delete read_only)

lemma reachable_clean_inv: "reachable_clean s \<Longrightarrow> store_inv s"
  by (induction rule: reachable_clean.induct) (simp_all add: inv_init inv_handle)

lemma reachable_clean_finite: "reachable_clean s \<Longrightarrow> finite_amounts s"
  by (induction rule: reachable_clean.induct)
     (simp_all add: finite_amounts_def init_state_def)

lemma reachable_clean_run:
  "reachable_clean s \<Longrightarrow> clean_run rs s \<Longrightarrow> reachable_clean (snd (run rs s))"
proof (induction rs arbitrary: s)
  case Nil
  then show ?case by simp
next
  case (Cons r rs)
  from Cons.prems(2) have a: "\<not> is_server_error (fst (handle r s))"
    and b: "finite_amounts (snd (handle r s))" and c: "clean_run rs (snd (handle r s))"
    by (simp_all add: split_beta)
  from Cons.prems(1) a b have "reachable_clean (snd (handle r s))" by (rule clean_step)
  then have "reachable_clean (snd (run rs (snd (handle r s))))" using c by (rule Cons.IH)
  then show ?case by (simp add: split_beta)
qed

lemma reachable_run: "reachable s \<Longrightarrow> reachable (snd (run rs s))"
proof (induction rs arbitrary: s)
  case Nil
  then show ?case by simp
next
  case (Cons r rs)
  from Cons.prems have "reachable (snd (handle r s))" by (rule reachable_step)
  then have "reachable (snd (run rs (snd (handle r s))))" by (rule Cons.IH)
  then show ?case by (simp add: split_beta)
qed

lemma reachable_clean_reachable: "reachable_clean s \<Longrightarrow> reachable s"
  by (induction rule: reachable_clean.induct) (auto intro: reachable.intros)



section \<open>Evaluating the handlers on concrete requests\<close>

lemma float_of_int_1 [simp]: "float_of_int 1 = Inr 1"
  by (simp add: float_of_int_def)

lemma float_of_int_numeral [simp]:
  "float_of_int (numeral k) =
     (if 2 ^ 1024 - 2 ^ 970 \<le> (numeral k :: int) then Inl OverflowError
      else Inr (fl (numeral k)))"
  by (simp add: float_of_int_def)

lemmas eval_defs = create_transaction_def update_transaction_def delete_transaction_def
  validate_payload_def validate_id_def validate_name_def validate_quantity_def
  validate_price_def validate_timestamp_def require_field_def parse_timestamp_def
  parse_truthy_def index_transaction_def unindex_transaction_def setdefault_add_def
  add_total_def discard_id_def sub_total_def dict_get_def transaction_total_def
  serialize_transaction_def init_state_def example_payload_def empty_payload_def Let_def

lemma s_demo_eq:
  "s_demo =
     \<lparr>transactions = [(2, sale 2 ''P1'' ''C2'' 1 5), (3, sale 3 ''P2'' ''C2'' 1 25)],
      product_totals = [(''P1'', 5), (''P2'', 25)], customer_totals = [(''C2'', 30)],
      product_index = [(''P1'', {2}), (''P2'', {3})], customer_index = [(''C2'', {2, 3})],
      next_id = 4\<rparr>"
  by (auto simp add: s_demo_def demo_requests_def eval_defs sale_def)

lemma finite_amounts_eval:
  "finite_amounts s \<longleftrightarrow>
     list_all (\<lambda>it. float_total (snd it) < 2 ^ 1024 - 2 ^ 970) (transactions s) \<and>
     list_all (\<lambda>kv. snd kv < 2 ^ 1024 - 2 ^ 970) (product_totals s) \<and>
     list_all (\<lambda>kv. snd kv < 2 ^ 1024 - 2 ^ 970) (customer_totals s)"
  by (rule finite_amounts_def)

lemma clean_demo: "clean_run demo_requests init_state"
  by (simp add: demo_requests_def eval_defs is_server_error_def finite_amounts_def
      float_total_def)

lemma reachable_clean_s_demo: "reachable_clean s_demo"
  unfolding s_demo_def by (intro reachable_clean_run clean_init clean_demo)

lemma reachable_s_demo: "reachable s_demo"
  by (rule reachable_clean_reachable [OF reachable_clean_s_demo])

lemma s_free_eq:
  "s_free =
     \<lparr>transactions = [(1, sale 1 ''P1'' ''C1'' 1 0)],
      product_totals = [(''P1'', 0)], customer_totals = [(''C1'', 0)],
      product_index = [(''P1'', {1})], customer_index = [(''C1'', {1})], next_id = 2\<rparr>"
  by (simp add: s_free_def eval_defs sale_def)

lemma s_pruned_eq:
  "s_pruned =
     \<lparr>transactions = [(2, sale 2 ''P1'' ''C1'' 1 0)],
      product_totals = [], customer_totals = [],
      product_index = [(''P1'', {2})], customer_index = [(''C1'', {2})], next_id = 3\<rparr>"
  by (auto simp add: s_pruned_def eval_defs sale_def)

lemma s_stuck_eq:
  "s_stuck =
     \<lparr>transactions = [(1, sale 1 ''P1'' ''C1'' (10 ^ 309) 1)],
      product_totals = [], customer_totals = [],
      product_index = [], customer_index = [], next_id = 2\<rparr>"
  by (simp add: s_stuck_def huge_payload_def eval_defs sale_def)








section \<open>The id counter\<close>

lemma create_transaction_id:
  "(\<exists>v. fst (create_transaction now d s) = Created v \<and> id_tx (fst v) = next_id s \<and>
        next_id (snd (create_transaction now d s)) = next_id s + 1) \<or>
   ((\<forall>v. fst (create_transaction now d s) \<noteq> Created v) \<and>
    next_id s \<le> next_id (snd (create_transaction now d s)))"
  by (auto simp: create_transaction_outcome Let_def new_tx_def index_with_sel
      split: sum.splits prod.splits)

lemma update_transaction_id:
  "(\<forall>v. fst (update_transaction now i d s) \<noteq> Created v) \<and>
   next_id (snd (update_transaction now i d s)) = next_id s"
proof (cases "map_of (transactions s) i")
  case None
  then show ?thesis by (simp add: update_transaction_def)
next
  case (Some t)
  show ?thesis
    by (auto simp: update_transaction_outcome [OF Some] Let_def index_with_sel unindex_with_sel
        split: sum.splits prod.splits)
qed

lemma delete_transaction_id:
  "(\<forall>v. fst (delete_transaction i s) \<noteq> Created v) \<and>
   next_id (snd (delete_transaction i s)) = next_id s"
proof (cases "map_of (transactions s) i")
  case None
  then show ?thesis by (simp add: delete_transaction_def)
next
  case (Some t)
  show ?thesis
    by (auto simp: delete_transaction_outcome [OF Some] Let_def unindex_with_sel
        split: sum.splits)
qed

lemma read_only_id:
  "\<forall>v. fst (list_transactions it args s) \<noteq> Created v"
  "\<forall>v. fst (top_customers l s) \<noteq> Created v"
  by (auto simp: list_transactions_def top_customers_def Let_def
      split: sum.splits py_error.splits)

lemma created_ids_single:
  "(\<forall>v. r \<noteq> Created v) \<Longrightarrow> created_ids (r # rs) = created_ids rs"
  by (cases r) simp_all

lemma handle_created:
  "(\<exists>v. fst (handle r s) = Created v \<and> id_tx (fst v) = next_id s \<and>
        next_id (snd (handle r s)) = next_id s + 1) \<or>
   ((\<forall>v. fst (handle r s) \<noteq> Created v) \<and> next_id s \<le> next_id (snd (handle r s)))"
proof (cases r)
  case (Create now d)
  then show ?thesis using create_transaction_id [of now d s] by simp
next
  case (ListTx it args)
  then show ?thesis using read_only_id(1) [of it args s] by (simp add: read_only)
next
  case (Update now i d)
  then show ?thesis using update_transaction_id [of now i d s] by simp
next
  case (Delete i)
  then show ?thesis using delete_transaction_id [of i s] by simp
next
  case (TopCustomers l)
  then show ?thesis using read_only_id(2) [of l s] by (simp add: read_only)
qed

lemma run_ids:
  "sorted_wrt (<) (created_ids (fst (run rs s))) \<and>
   (\<forall>i\<in>set (created_ids (fst (run rs s))). next_id s \<le> i \<and> i < next_id (snd (run rs s))) \<and>
   next_id s \<le> next_id (snd (run rs s))"
proof (induction rs arbitrary: s)
  case Nil
  then show ?case by simp
next
  case (Cons r rs)
  let ?s1 = "snd (handle r s)"
  note ih = Cons.IH [of ?s1]
  from handle_created [of r s] show ?case
  proof
    assume "\<exists>v. fst (handle r s) = Created v \<and> id_tx (fst v) = next_id s \<and>
      next_id ?s1 = next_id s + 1"
    then obtain v where v: "fst (handle r s) = Created v" "id_tx (fst v) = next_id s"
      "next_id ?s1 = next_id s + 1" by blast
    have "created_ids (fst (run (r # rs) s)) = next_id s # created_ids (fst (run rs ?s1))"
      using v by (simp add: split_beta)
    moreover have "snd (run (r # rs) s) = snd (run rs ?s1)" by (simp add: split_beta)
    ultimately show ?thesis using ih v(3) by fastforce
  next
    assume a: "(\<forall>v. fst (handle r s) \<noteq> Created v) \<and> next_id s \<le> next_id ?s1"
    then have "created_ids (fst (run (r # rs) s)) = created_ids (fst (run rs ?s1))"
      by (simp add: split_beta created_ids_single)
    moreover have "snd (run (r # rs) s) = snd (run rs ?s1)" by (simp add: split_beta)
    ultimately show ?thesis using ih a by fastforce
  qed
qed

section \<open>Selecting the largest entries\<close>







section \<open>The loop of the filter\<close>

lemma apply_filters_empty_string:
  "apply_filters set_iter (Some []) cid sd ed mn mx s =
     apply_filters set_iter None cid sd ed mn mx s"
  "apply_filters set_iter pid (Some []) sd ed mn mx s =
     apply_filters set_iter pid None sd ed mn mx s"
  by (simp_all add: apply_filters_def candidates_def truthy_def)

text \<open>On records whose quantity \<open>float\<close> converts, the loop is a filter.\<close>

lemma filter_loop_convertible:
  "list_all (\<lambda>t. convertible (quantity t)) ts \<Longrightarrow>
   filter_loop sd ed mn mx (map Inr ts) = Inr (filter (keep sd ed mn mx) ts)"
proof (induction ts)
  case Nil
  then show ?case by simp
next
  case (Cons t ts)
  then have "transaction_total t = Inr (float_total t)"
    by (simp add: transaction_total_convertible)
  with Cons show ?case by (auto simp: keep_def split: option.splits)
qed

lemma store_inv_convertible:
  "store_inv s \<Longrightarrow> list_all (\<lambda>t. convertible (quantity t)) (live_records s)"
  by (auto simp: store_inv_def live_records_def list_all_iff wf_record_def)

section \<open>Filtering through the indexes\<close>

lemma mem_sel_ids:
  "distinct (map fst ts) \<Longrightarrow>
   i \<in> sel_ids pid cid ts \<longleftrightarrow> (\<exists>t. map_of ts i = Some t \<and> selected pid cid t)"
  by (force simp: sel_ids_def image_iff)

lemma idx_rel_get: "idx_rel idx I \<Longrightarrow> dict_get idx k {} = I k"
  by (simp add: idx_rel_def dict_get_def)

lemma candidates_inv:
  assumes "store_inv s"
  shows "candidates pid cid s =
     (if truthy pid \<or> truthy cid then Some (sel_ids pid cid (transactions s)) else None)"
proof -
  from assms have d: "distinct (map fst (transactions s))"
    and pi: "idx_rel (product_index s) (ids_by product_id (transactions s))"
    and ci: "idx_rel (customer_index s) (ids_by customer_id (transactions s))"
    by (simp_all add: store_inv_def)
  show ?thesis
    unfolding candidates_def Let_def idx_rel_get [OF pi] idx_rel_get [OF ci]
    by (auto simp: mem_ids_by [OF d] mem_sel_ids [OF d] selected_def truthy_def
        split: option.splits)
qed

lemma fetch_keys:
  "set xs \<subseteq> fst ` set ts \<Longrightarrow>
   map (fetch ts) xs = map Inr (map (\<lambda>i. the (map_of ts i)) xs)"
proof (induction xs)
  case Nil
  then show ?case by simp
next
  case (Cons i xs)
  then obtain t where "map_of ts i = Some t"
    by (cases "map_of ts i") (auto simp: map_of_eq_None_iff)
  with Cons show ?case by (simp add: fetch_def)
qed

lemma mset_lookup:
  assumes d: "distinct (map fst ts)" and dx: "distinct xs" and sub: "set xs \<subseteq> fst ` set ts"
  shows "mset (map (\<lambda>i. the (map_of ts i)) xs) =
         mset (map snd (filter (\<lambda>it. fst it \<in> set xs) ts))"
proof -
  let ?g = "\<lambda>i. the (map_of ts i)"
  have "map snd (filter (\<lambda>it. fst it \<in> set xs) ts) =
        map (\<lambda>it. ?g (fst it)) (filter (\<lambda>it. fst it \<in> set xs) ts)"
    using d by (intro map_cong refl) auto
  also have "\<dots> = map ?g (filter (\<lambda>i. i \<in> set xs) (map fst ts))"
    by (simp add: filter_map comp_def)
  finally have "mset (map snd (filter (\<lambda>it. fst it \<in> set xs) ts)) =
      image_mset ?g (mset (filter (\<lambda>i. i \<in> set xs) (map fst ts)))" by simp
  moreover have "mset (filter (\<lambda>i. i \<in> set xs) (map fst ts)) = mset xs"
    using d dx sub by (intro iffD1 [OF set_eq_iff_mset_eq_distinct]) auto
  ultimately show ?thesis by simp
qed

lemma apply_filters_unfiltered:
  assumes "store_inv s" and "\<not> truthy pid" and "\<not> truthy cid"
  shows "apply_filters set_iter pid cid sd ed mn mx s =
     Inr (filter (keep sd ed mn mx) (live_records s))"
proof -
  have "apply_filters set_iter pid cid sd ed mn mx s =
      filter_loop sd ed mn mx (map Inr (live_records s))"
    using assms(2,3) by (simp add: apply_filters_def candidates_def live_records_def)
  then show ?thesis
    by (simp add: filter_loop_convertible [OF store_inv_convertible [OF assms(1)]])
qed

lemma selected_unfiltered: "\<not> truthy pid \<Longrightarrow> \<not> truthy cid \<Longrightarrow> selected pid cid t"
  by (auto simp: selected_def truthy_def split: option.splits)

lemma apply_filters_narrowed:
  assumes i: "store_inv s" and it: "set_iteration set_iter" and n: "truthy pid \<or> truthy cid"
  shows "\<exists>full. apply_filters set_iter pid cid sd ed mn mx s = Inr full \<and>
           mset full =
             mset (filter (\<lambda>t. selected pid cid t \<and> keep sd ed mn mx t) (live_records s)) \<and>
           map id_tx full =
             filter (\<lambda>i. keep sd ed mn mx (the (map_of (transactions s) i)))
               (set_iter (sel_ids pid cid (transactions s)))"
proof -
  let ?ts = "transactions s"
  let ?C = "sel_ids pid cid ?ts"
  let ?g = "\<lambda>i. the (map_of ?ts i)"
  let ?k = "keep sd ed mn mx"
  from i have d: "distinct (map fst ?ts)"
    and w: "list_all (wf_record (next_id s)) ?ts" by (simp_all add: store_inv_def)
  have fin: "finite ?C" by (simp add: sel_ids_def)
  with it have si: "set (set_iter ?C) = ?C" and di: "distinct (set_iter ?C)"
    by (simp_all add: set_iteration_def)
  have sub: "set (set_iter ?C) \<subseteq> fst ` set ?ts" unfolding si by (auto simp: sel_ids_def)
  have live: "(j, ?g j) \<in> set ?ts" if "j \<in> ?C" for j
  proof -
    from that obtain t where "map_of ?ts j = Some t" by (auto simp: mem_sel_ids [OF d])
    then show ?thesis using map_of_SomeD [of ?ts j t] by simp
  qed
  have conv: "list_all (\<lambda>t. convertible (quantity t)) (map ?g (set_iter ?C))"
    using w live by (fastforce simp: list_all_iff wf_record_def si)
  have "apply_filters set_iter pid cid sd ed mn mx s =
      filter_loop sd ed mn mx (map (fetch ?ts) (set_iter ?C))"
    using n by (simp add: apply_filters_def candidates_inv [OF i])
  also have "\<dots> = filter_loop sd ed mn mx (map Inr (map ?g (set_iter ?C)))"
    by (simp only: fetch_keys [OF sub])
  also have "\<dots> = Inr (filter ?k (map ?g (set_iter ?C)))"
    by (rule filter_loop_convertible [OF conv])
  finally have af: "apply_filters set_iter pid cid sd ed mn mx s =
      Inr (filter ?k (map ?g (set_iter ?C)))" .
  have same: "filter (\<lambda>it. fst it \<in> ?C) ?ts = filter (\<lambda>it. selected pid cid (snd it)) ?ts"
    using d by (intro filter_cong refl) (auto simp: mem_sel_ids [OF d] dest: eq_key_imp_eq_value)
  have m1: "mset (map ?g (set_iter ?C)) = mset (map snd (filter (\<lambda>it. fst it \<in> ?C) ?ts))"
    using mset_lookup [OF d di sub] by (simp only: si)
  have "mset (filter ?k (map ?g (set_iter ?C))) =
        mset (filter ?k (map snd (filter (\<lambda>it. fst it \<in> ?C) ?ts)))"
    using m1 by (metis mset_filter)
  also have "filter ?k (map snd (filter (\<lambda>it. fst it \<in> ?C) ?ts)) =
      filter (\<lambda>t. selected pid cid t \<and> ?k t) (live_records s)"
    unfolding same by (simp add: live_records_def filter_map comp_def conj_commute)
  finally have ms: "mset (filter ?k (map ?g (set_iter ?C))) =
      mset (filter (\<lambda>t. selected pid cid t \<and> ?k t) (live_records s))" .
  have idg: "id_tx (?g j) = j" if "j \<in> ?C" for j
    using w live [OF that] by (auto simp: list_all_iff wf_record_def)
  have "map id_tx (filter ?k (map ?g (set_iter ?C))) =
        map (\<lambda>j. id_tx (?g j)) (filter (\<lambda>j. ?k (?g j)) (set_iter ?C))"
    by (simp add: filter_map comp_def)
  also have "\<dots> = map (\<lambda>j. j) (filter (\<lambda>j. ?k (?g j)) (set_iter ?C))"
    by (intro map_cong refl) (auto simp: si idg)
  finally have ids: "map id_tx (filter ?k (map ?g (set_iter ?C))) =
      filter (\<lambda>j. ?k (?g j)) (set_iter ?C)" by simp
  from af ms ids show ?thesis by blast
qed


lemma slice_page_of: "slice limit offset full = page_of limit offset full"
  by (auto simp: slice_def page_of_def Let_def max_def split: option.splits)


lemma set_iteration_slot_order: "set_iteration slot_order"
  by (simp add: set_iteration_def slot_order_def)

lemma keep_matches:
  assumes "parsed args"
  shows "selected (a_product_id args) (a_customer_id args) t \<and>
         keep (case a_start_date args of TsOk t \<Rightarrow> Some t | _ \<Rightarrow> None)
              (case a_end_date args of TsOk t \<Rightarrow> Some t | _ \<Rightarrow> None)
              (case a_min_total args of Some v \<Rightarrow> v | None \<Rightarrow> None)
              (case a_max_total args of Some v \<Rightarrow> v | None \<Rightarrow> None) t \<longleftrightarrow>
         matches args t"
  using assms
  by (auto simp: parsed_def matches_def keep_def split: ts_in.splits option.splits)

lemma apply_filters_spec:
  assumes i: "store_inv s" and it: "set_iteration set_iter"
  shows "\<exists>full. apply_filters set_iter pid cid sd ed mn mx s = Inr full \<and>
           mset full =
             mset (filter (\<lambda>t. selected pid cid t \<and> keep sd ed mn mx t) (live_records s))"
proof (cases "truthy pid \<or> truthy cid")
  case True
  from apply_filters_narrowed [OF i it True, of sd ed mn mx] show ?thesis by blast
next
  case False
  then show ?thesis
    by (simp add: apply_filters_unfiltered [OF i] selected_unfiltered)
qed

lemma serialize_all_convertible:
  "list_all (\<lambda>t. convertible (quantity t)) ts \<Longrightarrow>
   serialize_all ts = Inr (map (\<lambda>t. (t, round2 (float_total t))) ts)"
  by (induction ts)
     (simp_all add: serialize_transaction_def transaction_total_convertible)

lemma parse_filter_parsed:
  "v = TsEmpty \<or> (\<exists>t. v = TsOk t) \<Longrightarrow>
   parse_filter v = Inr (case v of TsOk t \<Rightarrow> Some t | _ \<Rightarrow> None)"
  by (auto simp: parse_filter_def parse_truthy_def)

lemmas query_defs = list_transactions_def apply_filters_def candidates_def truthy_def
  slice_def dict_get_def serialize_transaction_def transaction_total_def sale_def Let_def
  live_records_def fetch_def parse_filter_def parse_truthy_def

section \<open>The claims\<close>

subsection \<open>C3: failed requests change nothing\<close>



subsection \<open>C9: the empty string as a filter\<close>

text \<open>
  C9. A \<open>product_id\<close> or \<open>customer_id\<close> filter that is the empty string is treated as
  absent, in \<open>_apply_filters\<close> and so in the listing; with both empty the candidates are
  all the live records, and where \<open>float\<close> converts the quantity of each of them the
  result is the live records that pass the other filters.
\<close>

theorem empty_string_filter_is_absent:
  "apply_filters set_iter (Some []) cid sd ed mn mx s =
     apply_filters set_iter None cid sd ed mn mx s \<and>
   apply_filters set_iter pid (Some []) sd ed mn mx s =
     apply_filters set_iter pid None sd ed mn mx s \<and>
   apply_filters set_iter (Some []) (Some []) sd ed mn mx s =
     filter_loop sd ed mn mx (map Inr (live_records s)) \<and>
   (list_all (\<lambda>t. convertible (quantity t)) (live_records s) \<longrightarrow>
      apply_filters set_iter (Some []) (Some []) sd ed mn mx s =
        Inr (filter (keep sd ed mn mx) (live_records s))) \<and>
   list_transactions set_iter (args\<lparr>a_product_id := Some []\<rparr>) s =
     list_transactions set_iter (args\<lparr>a_product_id := None\<rparr>) s \<and>
   list_transactions set_iter (args\<lparr>a_customer_id := Some []\<rparr>) s =
     list_transactions set_iter (args\<lparr>a_customer_id := None\<rparr>) s"
proof -
  have a: "apply_filters set_iter (Some []) (Some []) sd ed mn mx s =
     filter_loop sd ed mn mx (map Inr (live_records s))"
    by (simp add: apply_filters_def candidates_def truthy_def live_records_def)
  moreover have "list_transactions set_iter (args\<lparr>a_product_id := Some []\<rparr>) s =
     list_transactions set_iter (args\<lparr>a_product_id := None\<rparr>) s"
    unfolding list_transactions_def
    by (simp add: apply_filters_empty_string split: sum.splits py_error.splits)
  moreover have "list_transactions set_iter (args\<lparr>a_customer_id := Some []\<rparr>) s =
     list_transactions set_iter (args\<lparr>a_customer_id := None\<rparr>) s"
    unfolding list_transactions_def
    by (simp add: apply_filters_empty_string split: sum.splits py_error.splits)
  ultimately show ?thesis
    by (simp add: apply_filters_empty_string filter_loop_convertible)
qed

theorem empty_string_filter_is_absent_witness:
  "list_all (\<lambda>t. convertible (quantity t)) (live_records s_demo) \<and>
   apply_filters sorted_list_of_set (Some []) (Some []) None None (Some 10) None s_demo =
     Inr [sale 3 ''P2'' ''C2'' 1 25]"
proof -
  have c: "list_all (\<lambda>t. convertible (quantity t)) (live_records s_demo)"
    by (simp add: s_demo_eq live_records_def sale_def convertible_def)
  have f: "filter (keep None None (Some 10) None) (live_records s_demo) =
      [sale 3 ''P2'' ''C2'' 1 25]"
    by (simp add: s_demo_eq live_records_def sale_def keep_def float_total_def)
  from empty_string_filter_is_absent [of sorted_list_of_set None None None "Some 10" None
      s_demo None no_filter] c
  have "apply_filters sorted_list_of_set (Some []) (Some []) None None (Some 10) None s_demo =
      Inr (filter (keep None None (Some 10) None) (live_records s_demo))"
    by blast
  with c show ?thesis by (simp only: f)
qed

subsection \<open>C10: the default limit of the top-customers query\<close>

text \<open>
  C10. Without a limit parameter the top-customers query answers exactly as with
  \<open>limit = 10\<close>: it succeeds and returns 10 customers, or all of them when the ledger
  has fewer.
\<close>

theorem top_customers_default_limit:
  "top_customers None s = top_customers (Some 10) s \<and>
   (\<exists>cs. top_customers None s = (Customers cs (length cs), s) \<and>
         length cs = min 10 (length (customer_totals s)))"
  by (simp add: top_customers_def nlargest_def Let_def)

subsection \<open>C8: the ids of new records\<close>

text \<open>
  C8. The counter \<open>next_id\<close> starts at 1 and no request lowers it. A create that answers
  with a record has given it the value of the counter and has added 1 to the counter. So
  over any sequence of requests from the start of the service, the ids in the answers of
  the creates are strictly increasing, hence never reused, whatever is deleted in
  between; each of them is at least 1 and below the counter at the end.
\<close>

theorem created_ids_count_up:
  "next_id init_state = 1 \<and>
   (\<forall>r s. next_id s \<le> next_id (snd (handle r s))) \<and>
   (\<forall>now d s v. create_transaction now d s = (Created v, snd (create_transaction now d s)) \<longrightarrow>
      id_tx (fst v) = next_id s \<and>
      next_id (snd (create_transaction now d s)) = next_id s + 1) \<and>
   sorted_wrt (<) (created_ids (fst (run rs init_state))) \<and>
   distinct (created_ids (fst (run rs init_state))) \<and>
   set (created_ids (fst (run rs init_state))) \<subseteq> {1 ..< next_id (snd (run rs init_state))}"
proof -
  let ?ids = "created_ids (fst (run rs init_state))"
  have a: "\<forall>r s. next_id s \<le> next_id (snd (handle r s))"
  proof (intro allI)
    fix r s
    from handle_created [of r s] show "next_id s \<le> next_id (snd (handle r s))" by auto
  qed
  have b: "\<forall>now d s v. create_transaction now d s = (Created v, snd (create_transaction now d s)) \<longrightarrow>
      id_tx (fst v) = next_id s \<and> next_id (snd (create_transaction now d s)) = next_id s + 1"
  proof (intro allI impI)
    fix now d s v
    assume "create_transaction now d s = (Created v, snd (create_transaction now d s))"
    then have "fst (create_transaction now d s) = Created v" by (metis fst_conv)
    with create_transaction_id [of now d s]
    show "id_tx (fst v) = next_id s \<and> next_id (snd (create_transaction now d s)) = next_id s + 1"
      by auto
  qed
  note r = run_ids [of rs init_state]
  from r have s: "sorted_wrt (<) ?ids" by blast
  then have d: "distinct ?ids" by (simp add: strict_sorted_iff)
  have "set ?ids \<subseteq> {1 ..< next_id (snd (run rs init_state))}"
    using r by (auto simp: init_state_def)
  with a b s d show ?thesis by (simp add: init_state_def)
qed

theorem created_ids_count_up_witness:
  "created_ids (fst (run ids_demo init_state)) = [1, 3] \<and>
   next_id (snd (run ids_demo init_state)) = 4"
  using created_ids_count_up [of ids_demo]
  by (simp add: ids_demo_def huge_payload_def eval_defs)

subsection \<open>C7: the top customers\<close>




subsection \<open>C2: the secondary indexes\<close>

text \<open>
  C2 holds while no request fails with an exception: then the product index maps each
  product id to the ids of the live records of that product, has no entry for a product
  without live records, and likewise the customer index.
\<close>

lemma index_matches_records_clean:
  assumes "reachable_clean s"
  shows "map_of (product_index s) p =
           (if record_ids_where (of_product p) s = {} then None
            else Some (record_ids_where (of_product p) s))"
    and "map_of (customer_index s) c =
           (if record_ids_where (of_customer c) s = {} then None
            else Some (record_ids_where (of_customer c) s))"
proof -
  from reachable_clean_inv [OF assms] have i: "store_inv s" .
  then have w: "\<forall>it\<in>set (transactions s). id_tx (snd it) = fst it"
    by (auto simp: store_inv_def list_all_iff wf_record_def)
  have e: "record_ids_where (\<lambda>t. f t = k) s = ids_by f (transactions s) k" for f k
    using w by (force simp: record_ids_where_def live_records_def ids_by_def image_iff)
  from i have "idx_rel (product_index s) (ids_by product_id (transactions s))"
    and "idx_rel (customer_index s) (ids_by customer_id (transactions s))"
    by (simp_all add: store_inv_def)
  then show "map_of (product_index s) p =
           (if record_ids_where (of_product p) s = {} then None
            else Some (record_ids_where (of_product p) s))"
    and "map_of (customer_index s) c =
           (if record_ids_where (of_customer c) s = {} then None
            else Some (record_ids_where (of_customer c) s))"
    using e [of product_id p] e [of customer_id c]
    by (simp_all add: idx_rel_def of_product_def [abs_def] of_customer_def [abs_def])
qed

text \<open>
  C2 fails after a create whose quantity is an integer that \<open>float\<close> cannot convert, such
  as \<open>10 ** 309\<close>. The payload passes the validation; the handler takes the id 1 and stores
  the record; then \<open>_index_transaction\<close> raises \<open>OverflowError\<close> in
  \<open>_transaction_total\<close>, before it has touched an index. The record is live, and no index
  has its id.
\<close>

theorem create_overflow_leaves_record_unindexed:
  "create_transaction 0 huge_payload init_state = (ServerError OverflowError, s_stuck) \<and>
   map_of (transactions s_stuck) 1 = Some (sale 1 ''P1'' ''C1'' (10 ^ 309) 1) \<and>
   record_ids_where (of_product ''P1'') s_stuck = {1} \<and>
   map_of (product_index s_stuck) ''P1'' = None \<and>
   record_ids_where (of_customer ''C1'') s_stuck = {1} \<and>
   map_of (customer_index s_stuck) ''C1'' = None \<and>
   next_id s_stuck = 2"
proof -
  have "fst (create_transaction 0 huge_payload init_state) = ServerError OverflowError"
    by (simp add: huge_payload_def eval_defs)
  then have "create_transaction 0 huge_payload init_state = (ServerError OverflowError, s_stuck)"
    by (simp add: s_stuck_def prod_eq_iff)
  then show ?thesis
    by (simp add: s_stuck_eq record_ids_where_def live_records_def of_product_def
        of_customer_def sale_def)
qed

subsection \<open>C5: filtered listing and pagination\<close>

text \<open>
  C5 holds while no request fails with an exception. In a store reached in this way, for
  every query whose filters parse, the listing answers with a count that is the number of
  live records satisfying all the supplied predicates (\<open>product_id\<close> and \<open>customer_id\<close> by
  exact match, \<open>start_date\<close> and \<open>end_date\<close> as inclusive bounds on the timestamp,
  \<open>min_total\<close> and \<open>max_total\<close> as inclusive bounds on the total, the float
  \<open>quantity * price\<close>), and with a page that is the slice of the full filtered result
  (those records, each once) from the offset, of the length of the limit. The count does
  not depend on limit and offset.
\<close>

lemma listing_contract_clean:
  assumes "reachable_clean s" and "set_iteration set_iter" and "parsed args"
  shows "\<exists>full. list_transactions set_iter args s =
            (Listing (length (filter (matches args) (live_records s)))
               (map (\<lambda>t. (t, round2 (float_total t)))
                  (page_of (a_limit args) (a_offset args) full)), s) \<and>
           mset full = mset (filter (matches args) (live_records s))"
proof -
  let ?sd = "case a_start_date args of TsOk t \<Rightarrow> Some t | _ \<Rightarrow> None"
  let ?ed = "case a_end_date args of TsOk t \<Rightarrow> Some t | _ \<Rightarrow> None"
  let ?mn = "case a_min_total args of Some v \<Rightarrow> v | None \<Rightarrow> None"
  let ?mx = "case a_max_total args of Some v \<Rightarrow> v | None \<Rightarrow> None"
  note i = reachable_clean_inv [OF assms(1)]
  from apply_filters_spec [OF i assms(2)]
  obtain full where f: "apply_filters set_iter (a_product_id args) (a_customer_id args)
        ?sd ?ed ?mn ?mx s = Inr full"
    and m: "mset full = mset (filter (\<lambda>t. selected (a_product_id args) (a_customer_id args) t \<and>
        keep ?sd ?ed ?mn ?mx t) (live_records s))"
    by blast
  from m have m': "mset full = mset (filter (matches args) (live_records s))"
    by (simp only: keep_matches [OF assms(3)])
  then have "size (mset full) = size (mset (filter (matches args) (live_records s)))" by simp
  then have l: "length full = length (filter (matches args) (live_records s))"
    by (simp only: size_mset)
  from m' have "set full \<subseteq> set (live_records s)"
    by (metis filter_is_subset mset_eq_setD)
  then have "set (page_of (a_limit args) (a_offset args) full) \<subseteq> set (live_records s)"
    by (auto simp: page_of_def Let_def split: option.splits
        dest: in_set_takeD in_set_dropD)
  with store_inv_convertible [OF i]
  have c: "list_all (\<lambda>t. convertible (quantity t)) (page_of (a_limit args) (a_offset args) full)"
    by (auto simp: list_all_iff)
  have p1: "parse_filter (a_start_date args) = Inr ?sd"
    and p2: "parse_filter (a_end_date args) = Inr ?ed"
    using assms(3) by (simp_all add: parsed_def parse_filter_parsed)
  have "list_transactions set_iter args s =
      (Listing (length full)
         (map (\<lambda>t. (t, round2 (float_total t)))
            (page_of (a_limit args) (a_offset args) full)), s)"
    using assms(3) f
    by (simp add: list_transactions_def p1 p2 parsed_def Let_def slice_page_of
        serialize_all_convertible [OF c])
  with l m' show ?thesis by auto
qed

text \<open>
  C5 fails in the store that the create with the quantity \<open>10 ** 309\<close> has left: record 1
  is live and of product \<open>P1\<close>, and no index has its id. The listing for
  \<open>?product_id=P1\<close> takes its candidates from the index and answers with the count 0 and an
  empty page; the listing without a filter raises \<open>OverflowError\<close> in the loop of
  \<open>_apply_filters\<close>.
\<close>

theorem listing_misses_unindexed_record:
  "list_transactions sorted_list_of_set (no_filter\<lparr>a_product_id := Some ''P1''\<rparr>) s_stuck =
     (Listing 0 [], s_stuck) \<and>
   filter (matches (no_filter\<lparr>a_product_id := Some ''P1''\<rparr>)) (live_records s_stuck) =
     [sale 1 ''P1'' ''C1'' (10 ^ 309) 1] \<and>
   list_transactions sorted_list_of_set no_filter s_stuck = (ServerError OverflowError, s_stuck)"
proof -
  have "list_transactions sorted_list_of_set (no_filter\<lparr>a_product_id := Some ''P1''\<rparr>) s_stuck =
     (Listing 0 [], s_stuck)"
    by (simp add: no_filter_def s_stuck_eq query_defs)
  moreover have "filter (matches (no_filter\<lparr>a_product_id := Some ''P1''\<rparr>)) (live_records s_stuck) =
     [sale 1 ''P1'' ''C1'' (10 ^ 309) 1]"
    by (simp add: no_filter_def s_stuck_eq live_records_def matches_def selected_def sale_def)
  moreover have "list_transactions sorted_list_of_set no_filter s_stuck =
      (ServerError OverflowError, s_stuck)"
    by (simp add: no_filter_def s_stuck_eq query_defs)
  ultimately show ?thesis by simp
qed

subsection \<open>C6: the order of a listing\<close>





end
